theory Spec2Isabelle
  imports Main
begin

section \<open>The batch job of etl.py\<close>

text \<open>
  The script reads two sets of JSON records (songs, listening logs) through a Spark
  session, derives five tables and writes each as parquet. Everything the script does
  beyond computing is made explicit here: a data frame is a schema with positional rows,
  an exception is a value, the storage, the configuration file and the engine's calendar
  are fields of a \<open>world\<close>, and the effects of a run (environment variables, diagnostic
  lines, reads, writes) are fields of a state that every statement passes on.
\<close>

subsection \<open>Values, exceptions and data frames\<close>

text \<open>
  A cell is null, a string, a long, a double (the program only copies and compares
  doubles, so one is kept as an opaque number) or a timestamp (microseconds since the
  epoch, as the engine stores it).
\<close>

datatype val = VNull | VStr string | VInt int | VDouble int | VTime int

datatype pyexc =
    NameError string
  | KeyError string
  | AttributeError string
  | TypeError string
  | ConfigError string
  | AnalysisException string
  | Py4JJavaError string
  | SystemExit "int option"

text \<open>
  \<open>except Exception\<close> catches every exception of the model but
  \<open>SystemExit\<close>.
\<close>

fun is_Exception :: "pyexc \<Rightarrow> bool" where
  "is_Exception (SystemExit c) = False"
| "is_Exception e = True"

text \<open>The text an f-string puts for \<open>{e}\<close>.\<close>

definition quote :: string where
  "quote = [CHR 0x27]"

fun str_exc :: "pyexc \<Rightarrow> string" where
  "str_exc (NameError n) = ''name '' @ quote @ n @ quote @ '' is not defined''"
| "str_exc (KeyError k) = quote @ k @ quote"
| "str_exc (AttributeError a) = a"
| "str_exc (TypeError m) = m"
| "str_exc (ConfigError m) = m"
| "str_exc (AnalysisException m) = m"
| "str_exc (Py4JJavaError m) = m"
| "str_exc (SystemExit c) = []"

text \<open>
  A data frame: the column names in order, the rows (each a list of cells in column
  order), and a failure the lazy engine has not raised yet: a Python function applied to
  a column runs only when an action (a write) materialises the frame.
\<close>

record dataframe =
  columns :: "string list"
  rws :: "val list list"
  deferred :: "pyexc option"

text \<open>Every row has one cell for each column.\<close>

definition well_formed :: "dataframe \<Rightarrow> bool" where
  "well_formed df = list_all (\<lambda>r. length r = length (columns df)) (rws df)"

text \<open>
  The position of the first column of a name, and the cell of a row under that name.
\<close>

fun index_of :: "'a list \<Rightarrow> 'a \<Rightarrow> nat" where
  "index_of [] a = 0"
| "index_of (x # xs) a = (if x = a then 0 else Suc (index_of xs a))"

definition cell :: "string list \<Rightarrow> val list \<Rightarrow> string \<Rightarrow> val" where
  "cell cols r c = r ! index_of cols c"

text \<open>
  Sequencing of two steps that may raise: the first exception ends the sequence.
\<close>

definition and_then :: "pyexc + 'a \<Rightarrow> ('a \<Rightarrow> pyexc + 'b) \<Rightarrow> pyexc + 'b" where
  "and_then r f = (case r of Inl e \<Rightarrow> Inl e | Inr x \<Rightarrow> f x)"

subsection \<open>The data frame operations the script calls\<close>

text \<open>
  \<open>df.name\<close>: the column of that name, an AttributeError when the frame has
  none.
\<close>

definition col_attr :: "dataframe \<Rightarrow> string \<Rightarrow> pyexc + string" where
  "col_attr df c = (if c \<in> set (columns df) then Inr c else Inl (AttributeError c))"

text \<open>
  \<open>df.select(c1, ..., cn)\<close>: every name must resolve to exactly one column of the
  frame; the analyser refuses a name that is absent or ambiguous.
\<close>

definition project :: "string list \<Rightarrow> string list \<Rightarrow> val list \<Rightarrow> val list" where
  "project cols cs r = map (cell cols r) cs"

definition select :: "string list \<Rightarrow> dataframe \<Rightarrow> pyexc + dataframe" where
  "select cs df =
     (case find (\<lambda>c. count_list (columns df) c \<noteq> 1) cs of
        Some c \<Rightarrow> Inl (AnalysisException (''cannot resolve '' @ c))
      | None \<Rightarrow> Inr (df\<lparr>columns := cs, rws := map (project (columns df) cs) (rws df)\<rparr>))"

text \<open>
  \<open>df.dropDuplicates()\<close>: one row of each class of rows equal in every column.
\<close>

definition dropDuplicates :: "dataframe \<Rightarrow> dataframe" where
  "dropDuplicates df = df\<lparr>rws := remdups (rws df)\<rparr>"

text \<open>
  \<open>df.filter(df.c == 'lit')\<close>: the rows whose cell is that string; a null cell
  is dropped.
\<close>

definition filter_eq :: "string \<Rightarrow> string \<Rightarrow> dataframe \<Rightarrow> dataframe" where
  "filter_eq c lit df = df\<lparr>rws := filter (\<lambda>r. cell (columns df) r c = VStr lit) (rws df)\<rparr>"

text \<open>
  \<open>df.withColumnRenamed(existing, new)\<close>: no effect when the column is absent.
\<close>

definition withColumnRenamed :: "string \<Rightarrow> string \<Rightarrow> dataframe \<Rightarrow> dataframe" where
  "withColumnRenamed existing new df =
     df\<lparr>columns := map (\<lambda>c. if c = existing then new else c) (columns df)\<rparr>"

text \<open>
  \<open>df.withColumn(name, col)\<close>, the column given by its value in each row: it replaces
  the column of that name, or is appended as the last column.
\<close>

definition put_cell :: "string list \<Rightarrow> string \<Rightarrow> val list \<Rightarrow> val \<Rightarrow> val list" where
  "put_cell cols name r v =
     (if name \<in> set cols then map2 (\<lambda>c x. if c = name then v else x) cols r else r @ [v])"

definition withColumn :: "string \<Rightarrow> val list \<Rightarrow> dataframe \<Rightarrow> dataframe" where
  "withColumn name vs df =
     df\<lparr>columns := (if name \<in> set (columns df) then columns df else columns df @ [name]),
        rws := map2 (put_cell (columns df) name) (rws df) vs\<rparr>"

text \<open>SQL equality of two cells: true only when neither is null.\<close>

definition sql_eq :: "val \<Rightarrow> val \<Rightarrow> bool" where
  "sql_eq a b = (a \<noteq> VNull \<and> b \<noteq> VNull \<and> a = b)"

text \<open>
  The songs a log row joins with, for \<open>df.artist == song_df.artist_name\<close>.
\<close>

definition matching :: "dataframe \<Rightarrow> string \<Rightarrow> dataframe \<Rightarrow> string \<Rightarrow> val list \<Rightarrow> val list list" where
  "matching l a r b x = filter (\<lambda>y. sql_eq (cell (columns l) x a) (cell (columns r) y b)) (rws r)"

text \<open>
  \<open>l.join(r, l.a == r.b)\<close>: the inner join, every pair of rows that satisfies
  the condition.
\<close>

definition join_on :: "dataframe \<Rightarrow> string \<Rightarrow> dataframe \<Rightarrow> string \<Rightarrow> dataframe" where
  "join_on l a r b =
     \<lparr>columns = columns l @ columns r,
      rws = concat (map (\<lambda>x. map (\<lambda>y. x @ y) (matching l a r b x)) (rws l)),
      deferred = (case deferred l of Some e \<Rightarrow> Some e | None \<Rightarrow> deferred r)\<rparr>"

text \<open>
  \<open>F.monotonically_increasing_id()\<close>: the engine numbers the rows of each partition
  from 0 and puts the partition's index above bit 33 of a 64-bit signed long. The split
  of the rows into partitions is the engine's: \<open>sizes\<close> gives the sizes of the first
  partitions, the rows left over form the last one.
\<close>

definition wrap64 :: "int \<Rightarrow> int" where
  "wrap64 x = (x + 2 ^ 63) mod 2 ^ 64 - 2 ^ 63"

definition row_id :: "nat \<Rightarrow> nat \<Rightarrow> int" where
  "row_id p i = wrap64 (int p * 2 ^ 33 + int i)"

fun partition_ids :: "nat \<Rightarrow> nat list \<Rightarrow> nat \<Rightarrow> int list" where
  "partition_ids p [] n = map (row_id p) [0..<n]"
| "partition_ids p (s # ss) n = map (row_id p) [0..<min s n] @ partition_ids (Suc p) ss (n - s)"

definition monotonically_increasing_id :: "nat list \<Rightarrow> nat \<Rightarrow> int list" where
  "monotonically_increasing_id sizes n = partition_ids 0 sizes n"

text \<open>
  \<open>os.path.join(a, b)\<close> of posixpath: an absolute second part discards the
  first.
\<close>

definition os_path_join :: "string \<Rightarrow> string \<Rightarrow> string" where
  "os_path_join a b =
     (if b \<noteq> [] \<and> hd b = CHR ''/'' then b
      else if a = [] \<or> last a = CHR ''/'' then a @ b
      else a @ ''/'' @ b)"

subsection \<open>The world of a run, its effects, and the names the module binds\<close>

text \<open>
  \<open>dl.cfg\<close> as the parser presents it: a file it cannot parse, or the options of each
  section (a missing file parses to no section at all).
\<close>

datatype cfg_source = Unparsable string | Parsed "(string \<times> (string \<times> string) list) list"

text \<open>
  What the job finds outside itself: the configuration file, whether a session can be
  had, what reading JSON under a path gives, whether the storage refuses a write to a
  path, the engine's conversion of an epoch value to a timestamp in its own time zone
  (\<open>datetime.fromtimestamp(x / 1000.0)\<close> stored as a timestamp), its calendar functions
  on a timestamp, and the sizes of the partitions it forms.
\<close>

record world =
  dl_cfg :: cfg_source
  session_failure :: "pyexc option"
  json_files :: "string \<Rightarrow> pyexc + dataframe"
  storage_failure :: "string \<Rightarrow> pyexc option"
  fromtimestamp :: "val \<Rightarrow> int"
  hour_of :: "int \<Rightarrow> int"
  dayofmonth_of :: "int \<Rightarrow> int"
  weekofyear_of :: "int \<Rightarrow> int"
  month_of :: "int \<Rightarrow> int"
  year_of :: "int \<Rightarrow> int"
  dayofweek_of :: "int \<Rightarrow> int"
  partition_sizes :: "nat list"

text \<open>
  The effects of a run so far: the environment variables set, the lines emitted through
  \<open>error\<close>, the paths read, and the writes done (path, partition columns, table).
\<close>

record pstate =
  environ :: "(string \<times> string) list"
  diagnostics :: "string list"
  reads :: "string list"
  written :: "(string \<times> string list \<times> dataframe) list"

definition initial :: pstate where
  "initial = \<lparr>environ = [], diagnostics = [], reads = [], written = []\<rparr>"

text \<open>
  The names bound when the module runs: those of the imports of lines 1 to 7, \<open>config\<close>
  and the four functions (the builtins of Python have neither of the two names below).
  Every handler calls \<open>error\<close> and lines 127 and 136 call \<open>TimestampType\<close>; the record
  \<open>names\<close> says which of the two a run finds bound (\<open>error\<close>, when bound, being a
  function that emits its argument as one line), and \<open>etl_names\<close> is the module as the
  file has it.
\<close>

definition module_bindings :: "string list" where
  "module_bindings =
     [''configparser'', ''datetime'', ''os'', ''SparkSession'', ''F'', ''udf'', ''col'',
      ''year'', ''month'', ''dayofmonth'', ''hour'', ''weekofyear'', ''date_format'',
      ''config'', ''create_spark_session'', ''process_song_data'', ''process_log_data'',
      ''main'']"

record names =
  error_bound :: bool
  TimestampType_bound :: bool

definition etl_names :: names where
  "etl_names =
     \<lparr>error_bound = (''error'' \<in> set module_bindings),
      TimestampType_bound = (''TimestampType'' \<in> set module_bindings)\<rparr>"

subsection \<open>Statements: state passing, exceptions, try and except\<close>

text \<open>
  A statement takes the state and gives back a value or the exception it raised, with the
  state it left. \<open>lift\<close> is a computation without effects; \<open>then_run\<close> runs a second
  statement after a first, unless the first raised.
\<close>

definition lift :: "pyexc + 'a \<Rightarrow> pstate \<Rightarrow> (pyexc + 'a) \<times> pstate" where
  "lift r st = (r, st)"

definition then_run ::
  "(pstate \<Rightarrow> (pyexc + 'a) \<times> pstate) \<Rightarrow> ('a \<Rightarrow> pstate \<Rightarrow> (pyexc + 'b) \<times> pstate) \<Rightarrow>
   pstate \<Rightarrow> (pyexc + 'b) \<times> pstate" where
  "then_run m f st = (case m st of (Inl e, st') \<Rightarrow> (Inl e, st') | (Inr x, st') \<Rightarrow> f x st')"

text \<open>
  \<open>error(msg)\<close>: a NameError when the name is not bound, else one diagnostic
  line.
\<close>

definition call_error :: "names \<Rightarrow> string \<Rightarrow> pstate \<Rightarrow> (pyexc + unit) \<times> pstate" where
  "call_error nm msg st =
     (if error_bound nm then (Inr (), st\<lparr>diagnostics := diagnostics st @ [msg]\<rparr>)
      else (Inl (NameError ''error''), st))"

text \<open>\<open>exit()\<close>: raises SystemExit with no code.\<close>

definition exit_py :: "pstate \<Rightarrow> (pyexc + 'a) \<times> pstate" where
  "exit_py st = (Inl (SystemExit None), st)"

text \<open>
  \<open>try: body  except Exception as e: error(f"msg{e}"); exit()\<close>, the shape of every
  handler of the file.
\<close>

definition try_except ::
  "names \<Rightarrow> string \<Rightarrow> (pstate \<Rightarrow> (pyexc + 'a) \<times> pstate) \<Rightarrow> pstate \<Rightarrow> (pyexc + 'a) \<times> pstate" where
  "try_except nm msg body st =
     (case body st of
        (Inr x, st') \<Rightarrow> (Inr x, st')
      | (Inl e, st') \<Rightarrow>
          if is_Exception e
          then then_run (call_error nm (msg @ str_exc e)) (\<lambda>u. exit_py) st'
          else (Inl e, st'))"

text \<open>
  The status the interpreter exits with: 0 when the module runs to its end, the code of
  a SystemExit (0 when it has none), 1 after any other uncaught exception.
\<close>

fun exit_status :: "pyexc + unit \<Rightarrow> int" where
  "exit_status (Inr u) = 0"
| "exit_status (Inl (SystemExit None)) = 0"
| "exit_status (Inl (SystemExit (Some c))) = c"
| "exit_status (Inl e) = 1"

subsection \<open>Reading and writing\<close>

text \<open>
  \<open>spark.read.json(path)\<close>: what the world has under the path; the read is
  recorded.
\<close>

definition spark_read_json :: "world \<Rightarrow> string \<Rightarrow> pstate \<Rightarrow> (pyexc + dataframe) \<times> pstate" where
  "spark_read_json w path st = (json_files w path, st\<lparr>reads := reads st @ [path]\<rparr>)"

text \<open>
  \<open>table.write.partitionBy(cols).parquet(path, mode = 'overwrite')\<close>: the analyser
  refuses a partition column the table does not have; the action then raises what the
  lazy frame deferred, or what the storage answers; else the table is at the path.
\<close>

definition write_parquet ::
  "world \<Rightarrow> string \<Rightarrow> string list \<Rightarrow> dataframe \<Rightarrow> pstate \<Rightarrow> (pyexc + unit) \<times> pstate" where
  "write_parquet w path partition_cols table st =
     (case find (\<lambda>c. c \<notin> set (columns table)) partition_cols of
        Some c \<Rightarrow> (Inl (AnalysisException (''Partition column '' @ c @ '' not found in schema'')), st)
      | None \<Rightarrow>
         (case deferred table of
            Some e \<Rightarrow> (Inl e, st)
          | None \<Rightarrow>
             (case storage_failure w path of
                Some e \<Rightarrow> (Inl e, st)
              | None \<Rightarrow> (Inr (), st\<lparr>written := written st @ [(path, partition_cols, table)]\<rparr>))))"

subsection \<open>process\_song\_data\<close>

text \<open>Lines 53 and 54.\<close>

definition songs_table :: "dataframe \<Rightarrow> pyexc + dataframe" where
  "songs_table df =
     and_then (select [''song_id'', ''title'', ''artist_id'', ''year'', ''duration''] df)
       (\<lambda>t. Inr (dropDuplicates t))"

text \<open>Lines 69 and 70.\<close>

definition artists_table :: "dataframe \<Rightarrow> pyexc + dataframe" where
  "artists_table df =
     and_then (select [''artist_id'', ''artist_name'', ''artist_location'',
                       ''artist_latitude'', ''artist_longitude''] df)
       (\<lambda>t. Inr (dropDuplicates t))"

definition process_song_data ::
  "names \<Rightarrow> world \<Rightarrow> string \<Rightarrow> string \<Rightarrow> pstate \<Rightarrow> (pyexc + unit) \<times> pstate" where
  "process_song_data nm w input_data output_data =
     then_run (try_except nm ''Error reading songs data files while processing songs data: ''
                 (spark_read_json w (input_data @ ''song_data/*/*/*/*.json''))) (\<lambda>df.
     then_run (try_except nm ''Error creating songs_table dataframe: ''
                 (lift (songs_table df))) (\<lambda>songs.
     then_run (try_except nm ''Error writing songs table to S3: ''
                 (write_parquet w (output_data @ ''/songs'') [''year'', ''artist_id''] songs)) (\<lambda>u.
     then_run (try_except nm ''Error creating artists_table dataframe: ''
                 (lift (artists_table df))) (\<lambda>artists.
     try_except nm ''Error writing artists table to S3: ''
       (write_parquet w (output_data @ ''/artists'') [] artists)))))"

subsection \<open>process\_log\_data\<close>

text \<open>Lines 100 to 106: the filter on \<open>page\<close> and the six renamings.\<close>

definition nextsong_df :: "dataframe \<Rightarrow> pyexc + dataframe" where
  "nextsong_df df =
     and_then (col_attr df ''page'') (\<lambda>page.
       Inr (withColumnRenamed ''itemInSession'' ''item_in_session''
           (withColumnRenamed ''sessionId'' ''session_id''
           (withColumnRenamed ''userAgent'' ''user_agent''
           (withColumnRenamed ''lastName'' ''last_name''
           (withColumnRenamed ''firstName'' ''first_name''
           (withColumnRenamed ''userId'' ''user_id''
           (filter_eq page ''NextSong'' df))))))))"

text \<open>Lines 113 and 114.\<close>

definition users_table :: "dataframe \<Rightarrow> pyexc + dataframe" where
  "users_table df =
     and_then (select [''user_id'', ''first_name'', ''last_name'', ''gender'', ''level''] df)
       (\<lambda>t. Inr (dropDuplicates t))"

text \<open>
  Lines 127 and 136: \<open>udf(lambda x: datetime.fromtimestamp(x / 1000.0), TimestampType())\<close>.
  Evaluating the call looks \<open>TimestampType\<close> up; the function divides its argument, which
  Python refuses for anything but a number.
\<close>

definition lookup_TimestampType :: "names \<Rightarrow> pyexc + unit" where
  "lookup_TimestampType nm =
     (if TimestampType_bound nm then Inr () else Inl (NameError ''TimestampType''))"

definition get_timestamp :: "world \<Rightarrow> val \<Rightarrow> pyexc + val" where
  "get_timestamp w x =
     (case x of
        VInt n \<Rightarrow> Inr (VTime (fromtimestamp w x))
      | VDouble d \<Rightarrow> Inr (VTime (fromtimestamp w x))
      | _ \<Rightarrow> Inl (TypeError ''unsupported operand type(s) for /''))"

text \<open>
  \<open>df.withColumn(name, f(df.c))\<close> for a Python function \<open>f\<close>: a row where \<open>f\<close> raises
  fails the job when an action runs it, not here.
\<close>

definition withColumn_udf :: "string \<Rightarrow> (val \<Rightarrow> pyexc + val) \<Rightarrow> string \<Rightarrow> dataframe \<Rightarrow> dataframe" where
  "withColumn_udf name f c df =
     (let results = map (\<lambda>r. f (cell (columns df) r c)) (rws df);
          vs = map (\<lambda>x. case x of Inl e \<Rightarrow> VNull | Inr v \<Rightarrow> v) results;
          failed = (case deferred df of
                      Some e \<Rightarrow> Some e
                    | None \<Rightarrow> (case find isl results of
                                 Some (Inl e) \<Rightarrow> Some (Py4JJavaError (str_exc e))
                               | _ \<Rightarrow> None))
      in (withColumn name vs df)\<lparr>deferred := failed\<rparr>)"

text \<open>Line 130.\<close>

definition with_start_time :: "world \<Rightarrow> dataframe \<Rightarrow> pyexc + dataframe" where
  "with_start_time w df =
     and_then (col_attr df ''ts'') (\<lambda>ts. Inr (withColumn_udf ''start_time'' (get_timestamp w) ts df))"

text \<open>
  \<open>df.withColumn(name, F.g(df.datetime))\<close> for a calendar function
  \<open>g\<close> of the engine.
\<close>

definition calendar_column :: "(int \<Rightarrow> int) \<Rightarrow> string \<Rightarrow> dataframe \<Rightarrow> pyexc + dataframe" where
  "calendar_column g name df =
     and_then (col_attr df ''datetime'') (\<lambda>c.
       Inr (withColumn name
             (map (\<lambda>r. case cell (columns df) r c of VTime t \<Rightarrow> VInt (g t) | _ \<Rightarrow> VNull) (rws df)) df))"

text \<open>Lines 137 to 143.\<close>

definition with_datetime_columns :: "world \<Rightarrow> dataframe \<Rightarrow> pyexc + dataframe" where
  "with_datetime_columns w df =
     and_then (col_attr df ''ts'') (\<lambda>ts.
     and_then (calendar_column (hour_of w) ''hour''
                 (withColumn_udf ''datetime'' (get_timestamp w) ts df)) (\<lambda>d1.
     and_then (calendar_column (dayofmonth_of w) ''day'' d1) (\<lambda>d2.
     and_then (calendar_column (weekofyear_of w) ''week'' d2) (\<lambda>d3.
     and_then (calendar_column (month_of w) ''month'' d3) (\<lambda>d4.
     and_then (calendar_column (year_of w) ''year'' d4) (\<lambda>d5.
     calendar_column (dayofweek_of w) ''weekday'' d5))))))"

text \<open>Lines 148 and 149.\<close>

definition time_table :: "dataframe \<Rightarrow> pyexc + dataframe" where
  "time_table df =
     and_then (select [''start_time'', ''hour'', ''day'', ''week'', ''month'', ''year'', ''weekday''] df)
       (\<lambda>t. Inr (dropDuplicates t))"

text \<open>
  Lines 172 to 175: the join on the artist's name, the id column, the projection.
\<close>

definition songplays_columns :: "string list" where
  "songplays_columns =
     [''songplay_id'', ''start_time'', ''user_id'', ''level'', ''song_id'',
      ''artist_id'', ''session_id'', ''location'', ''user_agent'']"

definition songplays_table :: "world \<Rightarrow> dataframe \<Rightarrow> dataframe \<Rightarrow> pyexc + dataframe" where
  "songplays_table w df song_df =
     and_then (col_attr df ''artist'') (\<lambda>a.
     and_then (col_attr song_df ''artist_name'') (\<lambda>b.
       let joined = join_on df a song_df b;
           ids = monotonically_increasing_id (partition_sizes w) (length (rws joined))
       in select songplays_columns (withColumn ''songplay_id'' (map VInt ids) joined)))"

definition process_log_data ::
  "names \<Rightarrow> world \<Rightarrow> string \<Rightarrow> string \<Rightarrow> pstate \<Rightarrow> (pyexc + unit) \<times> pstate" where
  "process_log_data nm w input_data output_data =
     then_run (try_except nm ''Error reading log data files: ''
                 (spark_read_json w (input_data @ ''log_data/*.json''))) (\<lambda>df0.
     then_run (try_except nm ''Error filtering log dataframe: ''
                 (lift (nextsong_df df0))) (\<lambda>df1.
     then_run (try_except nm ''Error creating users_table dataframe: ''
                 (lift (users_table df1))) (\<lambda>users.
     then_run (try_except nm ''Error writing users table to S3: ''
                 (write_parquet w (os_path_join output_data ''/users'') [] users)) (\<lambda>u1.
     then_run (lift (lookup_TimestampType nm)) (\<lambda>u2.
     then_run (try_except nm ''Error adding 'timestamp' column to log dataframe: ''
                 (lift (with_start_time w df1))) (\<lambda>df2.
     then_run (lift (lookup_TimestampType nm)) (\<lambda>u3.
     then_run (lift (with_datetime_columns w df2)) (\<lambda>df3.
     then_run (try_except nm ''Error creating time_table dataframe: ''
                 (lift (time_table df3))) (\<lambda>time.
     then_run (try_except nm ''time_table write error: ''
                 (write_parquet w (output_data @ ''/time'') [''year'', ''month''] time)) (\<lambda>u4.
     then_run (try_except nm ''Error reading songs data files while processing log data: ''
                 (spark_read_json w (input_data @ ''song_data/*/*/*/*.json''))) (\<lambda>song_df.
     then_run (try_except nm ''Error creating songplays dataframe: ''
                 (lift (songplays_table w df3 song_df))) (\<lambda>songplays.
     try_except nm ''Error writing songplays table to S3: ''
       (write_parquet w (output_data @ ''/song_plays'') [''year'', ''month''] songplays)))))))))))))"

subsection \<open>main and the module\<close>

text \<open>Lines 28 to 32, and \<open>main\<close> with its two fixed roots.\<close>

definition create_spark_session :: "world \<Rightarrow> pyexc + unit" where
  "create_spark_session w = (case session_failure w of None \<Rightarrow> Inr () | Some e \<Rightarrow> Inl e)"

definition main :: "names \<Rightarrow> world \<Rightarrow> pstate \<Rightarrow> (pyexc + unit) \<times> pstate" where
  "main nm w =
     then_run (try_except nm ''Error creating SparkSession '' (lift (create_spark_session w))) (\<lambda>spark.
     then_run (process_song_data nm w ''s3a://udacity-dend/'' ''s3a://gy-nano-bkt/'') (\<lambda>u.
     process_log_data nm w ''s3a://udacity-dend/'' ''s3a://gy-nano-bkt/''))"

text \<open>Lines 10 and 11.\<close>

definition read_config :: "world \<Rightarrow> pyexc + (string \<times> (string \<times> string) list) list" where
  "read_config w = (case dl_cfg w of Unparsable m \<Rightarrow> Inl (ConfigError m) | Parsed secs \<Rightarrow> Inr secs)"

text \<open>
  \<open>config[section][option]\<close>: a KeyError for a missing section or option.
\<close>

definition config_get :: "(string \<times> (string \<times> string) list) list \<Rightarrow> string \<Rightarrow> string \<Rightarrow> pyexc + string" where
  "config_get secs s k =
     (case map_of secs s of
        None \<Rightarrow> Inl (KeyError s)
      | Some opts \<Rightarrow> (case map_of opts k of None \<Rightarrow> Inl (KeyError k) | Some v \<Rightarrow> Inr v))"

text \<open>
  Lines 17 and 18: the first variable is set before the second option is looked up.
\<close>

definition set_credentials ::
  "(string \<times> (string \<times> string) list) list \<Rightarrow> pstate \<Rightarrow> (pyexc + unit) \<times> pstate" where
  "set_credentials secs st =
     (case config_get secs ''KEY'' ''AWS_ACCESS_KEY_ID'' of
        Inl e \<Rightarrow> (Inl e, st)
      | Inr k \<Rightarrow>
         (case config_get secs ''SECRET'' ''AWS_SECRET_ACCESS_KEY'' of
            Inl e \<Rightarrow> (Inl e, st\<lparr>environ := environ st @ [(''AWS_ACCESS_KEY_ID'', k)]\<rparr>)
          | Inr s \<Rightarrow>
             (Inr (), st\<lparr>environ := environ st @ [(''AWS_ACCESS_KEY_ID'', k),
                                                  (''AWS_SECRET_ACCESS_KEY'', s)]\<rparr>)))"

text \<open>
  The module from its first line to its last, run as a script from the initial state.
\<close>

definition etl :: "names \<Rightarrow> world \<Rightarrow> (pyexc + unit) \<times> pstate" where
  "etl nm w =
     then_run (try_except nm ''Error reading config file: '' (lift (read_config w))) (\<lambda>config.
     then_run (try_except nm ''Error setting AWS credential Environment Variables: ''
                 (set_credentials config)) (\<lambda>u.
     main nm w)) initial"

subsection \<open>Concrete inputs\<close>

text \<open>
  The records of the scenario of the specification, in the schema the reader infers
  (columns in alphabetical order), with a second song of the same artist name and a
  second log event whose page is not NextSong.
\<close>

definition song_columns :: "string list" where
  "song_columns =
     [''artist_id'', ''artist_latitude'', ''artist_location'', ''artist_longitude'',
      ''artist_name'', ''duration'', ''song_id'', ''title'', ''year'']"

definition song_S1 :: "val list" where
  "song_S1 = [VStr ''AR1'', VNull, VNull, VNull, VStr ''Band'', VDouble 180, VStr ''S1'', VStr ''T'', VInt 2000]"

definition song_S2 :: "val list" where
  "song_S2 = [VStr ''AR2'', VNull, VNull, VNull, VStr ''Band'', VDouble 200, VStr ''S2'', VStr ''U'', VInt 2001]"


definition one_song :: dataframe where
  "one_song = \<lparr>columns = song_columns, rws = [song_S1], deferred = None\<rparr>"

definition two_songs :: dataframe where
  "two_songs = \<lparr>columns = song_columns, rws = [song_S1, song_S2], deferred = None\<rparr>"


definition log_columns :: "string list" where
  "log_columns =
     [''artist'', ''firstName'', ''gender'', ''lastName'', ''level'', ''location'', ''page'',
      ''sessionId'', ''ts'', ''userAgent'', ''userId'']"

definition event_play :: "val list" where
  "event_play =
     [VStr ''Band'', VStr ''Jo'', VStr ''F'', VStr ''Doe'', VStr ''free'', VStr ''LA'',
      VStr ''NextSong'', VInt 5, VInt 1000000000000, VStr ''UA'', VStr ''7'']"

definition event_home :: "val list" where
  "event_home =
     [VNull, VStr ''Al'', VStr ''M'', VStr ''Roe'', VStr ''paid'', VStr ''NY'',
      VStr ''Home'', VInt 6, VInt 1000000000001, VStr ''UA'', VStr ''8'']"

definition one_event :: dataframe where
  "one_event = \<lparr>columns = log_columns, rws = [event_play], deferred = None\<rparr>"

definition two_events :: dataframe where
  "two_events = \<lparr>columns = log_columns, rws = [event_play, event_home], deferred = None\<rparr>"

text \<open>
  The log frame as line 172 would find it for the one event: the renamed columns and the
  eight derived ones (2001-09-09 01:46:40 UTC, a Sunday of week 36).
\<close>

definition played_columns :: "string list" where
  "played_columns =
     [''artist'', ''first_name'', ''gender'', ''last_name'', ''level'', ''location'', ''page'',
      ''session_id'', ''ts'', ''user_agent'', ''user_id'', ''start_time'', ''datetime'',
      ''hour'', ''day'', ''week'', ''month'', ''year'', ''weekday'']"

definition played_row :: "val list" where
  "played_row =
     [VStr ''Band'', VStr ''Jo'', VStr ''F'', VStr ''Doe'', VStr ''free'', VStr ''LA'',
      VStr ''NextSong'', VInt 5, VInt 1000000000000, VStr ''UA'', VStr ''7'',
      VTime 1000000000000000, VTime 1000000000000000,
      VInt 1, VInt 9, VInt 36, VInt 9, VInt 2001, VInt 1]"

definition unmatched_row :: "val list" where
  "unmatched_row =
     [VStr ''band'', VStr ''Jo'', VStr ''F'', VStr ''Doe'', VStr ''free'', VStr ''LA'',
      VStr ''NextSong'', VInt 5, VInt 1000000000000, VStr ''UA'', VStr ''7'',
      VTime 1000000000000000, VTime 1000000000000000,
      VInt 1, VInt 9, VInt 36, VInt 9, VInt 2001, VInt 1]"

definition played :: dataframe where
  "played = \<lparr>columns = played_columns, rws = [played_row], deferred = None\<rparr>"

text \<open>
  A world where everything outside the script works: both credentials configured, the
  two inputs under the paths the script reads, a storage that accepts every write, an
  engine in UTC (its calendar tabulated at the one instant of the scenario) that keeps
  its rows in one partition.
\<close>

definition good_cfg :: cfg_source where
  "good_cfg =
     Parsed [(''KEY'', [(''AWS_ACCESS_KEY_ID'', ''AKIA'')]),
             (''SECRET'', [(''AWS_SECRET_ACCESS_KEY'', ''secret'')])]"

definition scenario :: world where
  "scenario =
     \<lparr>dl_cfg = good_cfg,
      session_failure = None,
      json_files = (\<lambda>p. if p = ''s3a://udacity-dend/song_data/*/*/*/*.json'' then Inr one_song
                        else if p = ''s3a://udacity-dend/log_data/*.json'' then Inr two_events
                        else Inl (AnalysisException ''Path does not exist'')),
      storage_failure = (\<lambda>p. None),
      fromtimestamp = (\<lambda>v. case v of VInt n \<Rightarrow> n * 1000 | _ \<Rightarrow> 0),
      hour_of = (\<lambda>t. 1),
      dayofmonth_of = (\<lambda>t. 9),
      weekofyear_of = (\<lambda>t. 36),
      month_of = (\<lambda>t. 9),
      year_of = (\<lambda>t. 2001),
      dayofweek_of = (\<lambda>t. 1),
      partition_sizes = []\<rparr>"

text \<open>The two names bound, as a run of a repaired module would find them.\<close>

definition all_bound :: names where
  "all_bound = \<lparr>error_bound = True, TimestampType_bound = True\<rparr>"


text \<open>The tables expected of these inputs.\<close>

definition songs_out :: dataframe where
  "songs_out =
     \<lparr>columns = [''song_id'', ''title'', ''artist_id'', ''year'', ''duration''],
      rws = [[VStr ''S1'', VStr ''T2'', VStr ''AR1'', VInt 2000, VDouble 180],
             [VStr ''S1'', VStr ''T'', VStr ''AR1'', VInt 2000, VDouble 180]],
      deferred = None\<rparr>"



definition time_out :: dataframe where
  "time_out =
     \<lparr>columns = [''start_time'', ''hour'', ''day'', ''week'', ''month'', ''year'', ''weekday''],
      rws = [[VTime 1000000000000000, VInt 1, VInt 9, VInt 36, VInt 9, VInt 2001, VInt 1]],
      deferred = None\<rparr>"

definition songplays_out :: dataframe where
  "songplays_out =
     \<lparr>columns = songplays_columns,
      rws = [[VInt 0, VTime 1000000000000000, VStr ''7'', VStr ''free'', VStr ''S1'', VStr ''AR1'',
              VInt 5, VStr ''LA'', VStr ''UA'']],
      deferred = None\<rparr>"

text \<open>Two worlds where something outside the script fails.\<close>

definition no_credentials :: world where
  "no_credentials = scenario\<lparr>dl_cfg := Parsed []\<rparr>"

definition no_input :: world where
  "no_input = scenario\<lparr>json_files := (\<lambda>p. Inl (AnalysisException ''Path does not exist''))\<rparr>"


text \<open>
  The log frame of line 172 with two events: one whose artist is the name of the songs, one
  whose artist differs from it in case.
\<close>

definition played_mixed :: dataframe where
  "played_mixed = \<lparr>columns = played_columns, rws = [played_row, unmatched_row], deferred = None\<rparr>"

text \<open>
  The fact table expected of these two events and the two songs when the engine puts the
  first joined row in a partition of its own.
\<close>

definition facts_out :: dataframe where
  "facts_out =
     \<lparr>columns = songplays_columns,
      rws = [[VInt 0, VTime 1000000000000000, VStr ''7'', VStr ''free'', VStr ''S1'', VStr ''AR1'',
              VInt 5, VStr ''LA'', VStr ''UA''],
             [VInt 8589934592, VTime 1000000000000000, VStr ''7'', VStr ''free'', VStr ''S2'', VStr ''AR2'',
              VInt 5, VStr ''LA'', VStr ''UA'']],
      deferred = None\<rparr>"

definition split_in_two :: world where
  "split_in_two = scenario\<lparr>partition_sizes := [1]\<rparr>"

text \<open>
  The frame expected after lines 100 to 106 of the two events, one of them a page view.
\<close>

definition nextsong_out :: dataframe where
  "nextsong_out =
     \<lparr>columns = [''artist'', ''first_name'', ''gender'', ''last_name'', ''level'', ''location'',
                 ''page'', ''session_id'', ''ts'', ''user_agent'', ''user_id''],
      rws = [event_play], deferred = None\<rparr>"

text \<open>
  A log that holds the one event \<open>2 ^ 33 + 2\<close> times, and an engine that puts
  the first \<open>2 ^ 33 + 1\<close> joined rows in one partition.
\<close>

definition crowd :: nat where
  "crowd = 2 ^ 33 + 1"

definition crowded_log :: dataframe where
  "crowded_log = \<lparr>columns = played_columns, rws = replicate (Suc crowd) played_row, deferred = None\<rparr>"

definition crowded :: world where
  "crowded = scenario\<lparr>partition_sizes := [crowd]\<rparr>"

subsection \<open>Notions the proofs use\<close>

text \<open>A statement writes to no path outside \<open>P\<close>.\<close>

definition writes_only :: "string set \<Rightarrow> (pstate \<Rightarrow> (pyexc + 'a) \<times> pstate) \<Rightarrow> bool" where
  "writes_only P m = (\<forall>st. fst ` set (written (snd (m st))) \<subseteq> fst ` set (written st) \<union> P)"

text \<open>A statement emits no diagnostic line.\<close>

definition silent :: "(pstate \<Rightarrow> (pyexc + 'a) \<times> pstate) \<Rightarrow> bool" where
  "silent m = (\<forall>st. diagnostics (snd (m st)) = diagnostics st)"

text \<open>
  A statement emits nothing, or emits one line and ends in \<open>exit()\<close>.
\<close>

definition one_line_then_exit :: "(pstate \<Rightarrow> (pyexc + 'a) \<times> pstate) \<Rightarrow> bool" where
  "one_line_then_exit m =
     (\<forall>st. diagnostics (snd (m st)) = diagnostics st \<or>
           (fst (m st) = Inl (SystemExit None) \<and>
            (\<exists>line. diagnostics (snd (m st)) = diagnostics st @ [line])))"

text \<open>A statement never ends normally.\<close>

definition always_raises :: "(pstate \<Rightarrow> (pyexc + 'a) \<times> pstate) \<Rightarrow> bool" where
  "always_raises m = (\<forall>st. isl (fst (m st)))"







text \<open>
  The schemas under which lines 172 to 175 build the fact table: the columns of the join
  condition exist, each projected column is found once, in the log frame or in the song
  frame as the data model has it, and no column is called \<open>songplay_id\<close> yet. The two
  frames may share other names (both have a \<open>year\<close> at line 172).
\<close>

definition fact_schema :: "dataframe \<Rightarrow> dataframe \<Rightarrow> bool" where
  "fact_schema df song_df =
     (''artist'' \<in> set (columns df) \<and> ''artist_name'' \<in> set (columns song_df) \<and>
      list_all (\<lambda>c. count_list (columns df) c = 1 \<and> c \<notin> set (columns song_df))
        [''start_time'', ''user_id'', ''level'', ''session_id'', ''location'', ''user_agent''] \<and>
      list_all (\<lambda>c. count_list (columns song_df) c = 1 \<and> c \<notin> set (columns df))
        [''song_id'', ''artist_id''] \<and>
      ''songplay_id'' \<notin> set (columns df) \<and> ''songplay_id'' \<notin> set (columns song_df))"

text \<open>The \<open>songplay_id\<close> column of a fact table.\<close>

definition songplay_ids :: "dataframe \<Rightarrow> val list" where
  "songplay_ids t = map (\<lambda>r. cell (columns t) r ''songplay_id'') (rws t)"

section \<open>Properties\<close>

subsection \<open>Results of the data frame operations\<close>

lemma and_then_Inr: "and_then r f = Inr y \<longleftrightarrow> (\<exists>x. r = Inr x \<and> f x = Inr y)"
  by (cases r) (simp_all add: and_then_def)

lemma select_Inr:
  "select cs df = Inr t \<Longrightarrow>
     t = df\<lparr>columns := cs, rws := map (project (columns df) cs) (rws df)\<rparr> \<and>
     (\<forall>c\<in>set cs. count_list (columns df) c = 1)"
  by (auto simp: select_def find_None_iff split: option.splits)

lemma dedup_table:
  "and_then (select cs df) (\<lambda>t. Inr (dropDuplicates t)) = Inr t \<Longrightarrow>
     columns t = cs \<and> rws t = remdups (map (project (columns df) cs) (rws df))"
  by (auto simp: and_then_Inr dropDuplicates_def dest!: select_Inr)






subsection \<open>What a run writes, emits and returns\<close>

lemma writes_onlyI:
  "(\<And>st. fst ` set (written (snd (m st))) \<subseteq> fst ` set (written st) \<union> P) \<Longrightarrow> writes_only P m"
  by (simp add: writes_only_def)

lemma writes_onlyD:
  "writes_only P m \<Longrightarrow> fst ` set (written (snd (m st))) \<subseteq> fst ` set (written st) \<union> P"
  by (simp add: writes_only_def)

lemma writes_only_mono: "writes_only P m \<Longrightarrow> P \<subseteq> Q \<Longrightarrow> writes_only Q m"
  unfolding writes_only_def by blast

lemma writes_only_lift: "writes_only P (lift r)"
  by (simp add: writes_only_def lift_def)

lemma writes_only_exit: "writes_only P exit_py"
  by (simp add: writes_only_def exit_py_def)

lemma writes_only_call_error: "writes_only P (call_error nm msg)"
  by (simp add: writes_only_def call_error_def)

lemma writes_only_read: "writes_only P (spark_read_json w p)"
  by (simp add: writes_only_def spark_read_json_def)

lemma writes_only_write: "p \<in> P \<Longrightarrow> writes_only P (write_parquet w p cs t)"
  by (auto simp: writes_only_def write_parquet_def split: option.splits)

lemma writes_only_then_run:
  assumes "writes_only P m" and "\<And>x. writes_only P (f x)"
  shows "writes_only P (then_run m f)"
proof (rule writes_onlyI)
  fix st
  obtain r st' where m: "m st = (r, st')" by (cases "m st")
  have a: "fst ` set (written st') \<subseteq> fst ` set (written st) \<union> P"
    using writes_onlyD[OF assms(1), of st] m by simp
  show "fst ` set (written (snd (then_run m f st))) \<subseteq> fst ` set (written st) \<union> P"
  proof (cases r)
    case (Inl e)
    then show ?thesis using a m by (simp add: then_run_def)
  next
    case (Inr x)
    have "fst ` set (written (snd (f x st'))) \<subseteq> fst ` set (written st') \<union> P"
      by (rule writes_onlyD[OF assms(2)])
    then show ?thesis using a m Inr by (auto simp: then_run_def)
  qed
qed

lemma handler_written:
  "written (snd (then_run (call_error nm m) (\<lambda>u. exit_py) st)) = written st"
  by (simp add: then_run_def call_error_def exit_py_def)

lemma writes_only_try_except:
  assumes "writes_only P body"
  shows "writes_only P (try_except nm msg body)"
proof (rule writes_onlyI)
  fix st
  obtain r st' where m: "body st = (r, st')" by (cases "body st")
  have a: "fst ` set (written st') \<subseteq> fst ` set (written st) \<union> P"
    using writes_onlyD[OF assms(1), of st] m by simp
  show "fst ` set (written (snd (try_except nm msg body st))) \<subseteq> fst ` set (written st) \<union> P"
    using a m by (cases r) (simp_all add: try_except_def handler_written)
qed

lemmas writes_only_intros =
  writes_only_then_run writes_only_try_except writes_only_lift writes_only_read
  writes_only_write writes_only_call_error writes_only_exit

lemma writes_only_song:
  "writes_only {output_data @ ''/songs'', output_data @ ''/artists''} (process_song_data nm w input_data output_data)"
  unfolding process_song_data_def
  by (intro writes_only_intros) simp_all

lemma songplays_table_columns:
  "songplays_table w df s = Inr t \<Longrightarrow> columns t = songplays_columns"
  by (auto simp: songplays_table_def and_then_Inr Let_def dest!: select_Inr)

lemma songplays_write_refused:
  "columns t = songplays_columns \<Longrightarrow>
     write_parquet w p [''year'', ''month''] t st =
       (Inl (AnalysisException ''Partition column year not found in schema''), st)"
  by (simp add: write_parquet_def songplays_columns_def)

lemma writes_only_songplays:
  "writes_only P
     (then_run (try_except nm m1 (lift (songplays_table w df s)))
        (\<lambda>t. try_except nm m2 (write_parquet w p [''year'', ''month''] t)))"
proof (rule writes_onlyI)
  fix st
  show "fst ` set (written (snd (then_run (try_except nm m1 (lift (songplays_table w df s)))
          (\<lambda>t. try_except nm m2 (write_parquet w p [''year'', ''month''] t)) st)))
        \<subseteq> fst ` set (written st) \<union> P"
  proof (cases "songplays_table w df s")
    case (Inl e)
    then show ?thesis
      by (auto simp: then_run_def try_except_def lift_def call_error_def exit_py_def)
  next
    case (Inr t)
    then show ?thesis
      using songplays_write_refused[OF songplays_table_columns[OF Inr]]
      by (auto simp: then_run_def try_except_def lift_def call_error_def exit_py_def)
  qed
qed

lemma writes_only_log:
  "writes_only {os_path_join output_data ''/users'', output_data @ ''/time''}
     (process_log_data nm w input_data output_data)"
  unfolding process_log_data_def
  by (intro writes_only_songplays writes_only_intros) simp_all

lemma then_run_lift_Inl: "then_run (lift (Inl e)) f = lift (Inl e)"
  by (rule ext) (simp add: then_run_def lift_def)

lemma process_log_data_as_is:
  "process_log_data etl_names w input_data output_data =
     then_run (try_except etl_names ''Error reading log data files: ''
                 (spark_read_json w (input_data @ ''log_data/*.json''))) (\<lambda>df0.
     then_run (try_except etl_names ''Error filtering log dataframe: ''
                 (lift (nextsong_df df0))) (\<lambda>df1.
     then_run (try_except etl_names ''Error creating users_table dataframe: ''
                 (lift (users_table df1))) (\<lambda>users.
     then_run (try_except etl_names ''Error writing users table to S3: ''
                 (write_parquet w (os_path_join output_data ''/users'') [] users)) (\<lambda>u1.
     lift (Inl (NameError ''TimestampType''))))))"
proof -
  have "lookup_TimestampType etl_names = Inl (NameError ''TimestampType'')"
    by (simp add: lookup_TimestampType_def etl_names_def module_bindings_def)
  then show ?thesis
    by (simp add: process_log_data_def then_run_lift_Inl)
qed

lemma writes_only_log_as_is:
  "writes_only {os_path_join output_data ''/users''}
     (process_log_data etl_names w input_data output_data)"
  unfolding process_log_data_as_is
  by (intro writes_only_intros) simp_all

lemma writes_only_main:
  "writes_only {''s3a://gy-nano-bkt//songs'', ''s3a://gy-nano-bkt//artists'', ''/users'',
                ''s3a://gy-nano-bkt//time''} (main nm w)"
  unfolding main_def
  by (intro writes_only_intros writes_only_mono[OF writes_only_song] writes_only_mono[OF writes_only_log])
     (simp_all add: os_path_join_def)

lemma writes_only_main_as_is:
  "writes_only {''s3a://gy-nano-bkt//songs'', ''s3a://gy-nano-bkt//artists'', ''/users''}
     (main etl_names w)"
  unfolding main_def
  by (intro writes_only_intros writes_only_mono[OF writes_only_song] writes_only_mono[OF writes_only_log_as_is])
     (simp_all add: os_path_join_def)

lemma set_credentials_written: "written (snd (set_credentials secs st)) = written st"
  by (simp add: set_credentials_def split: sum.splits)

lemma writes_only_set_credentials: "writes_only P (set_credentials secs)"
  by (simp add: writes_only_def set_credentials_written)

lemma etl_writes:
  "fst ` set (written (snd (etl nm w)))
     \<subseteq> {''s3a://gy-nano-bkt//songs'', ''s3a://gy-nano-bkt//artists'', ''/users'',
         ''s3a://gy-nano-bkt//time''}"
proof -
  have "writes_only {''s3a://gy-nano-bkt//songs'', ''s3a://gy-nano-bkt//artists'', ''/users'',
         ''s3a://gy-nano-bkt//time''}
     (then_run (try_except nm ''Error reading config file: '' (lift (read_config w))) (\<lambda>config.
     then_run (try_except nm ''Error setting AWS credential Environment Variables: ''
                 (set_credentials config)) (\<lambda>u.
     main nm w)))"
    by (intro writes_only_intros writes_only_set_credentials writes_only_main)
  from writes_onlyD[OF this, of initial] show ?thesis
    by (simp add: etl_def initial_def)
qed

lemma silent_lift: "silent (lift r)"
  by (simp add: silent_def lift_def)

lemma silent_read: "silent (spark_read_json w p)"
  by (simp add: silent_def spark_read_json_def)

lemma silent_write: "silent (write_parquet w p cs t)"
  by (simp add: silent_def write_parquet_def split: option.splits)

lemma silent_set_credentials: "silent (set_credentials secs)"
  by (simp add: silent_def set_credentials_def split: sum.splits)

lemma one_line_silent: "silent m \<Longrightarrow> one_line_then_exit m"
  by (simp add: silent_def one_line_then_exit_def)

lemma one_line_lift: "one_line_then_exit (lift r)"
  by (rule one_line_silent[OF silent_lift])

lemma one_line_try_except:
  assumes "silent body"
  shows "one_line_then_exit (try_except nm msg body)"
  unfolding one_line_then_exit_def
proof
  fix st
  obtain r st' where m: "body st = (r, st')" by (cases "body st")
  have a: "diagnostics st' = diagnostics st"
    using assms m by (auto simp: silent_def dest: spec[of _ st])
  show "diagnostics (snd (try_except nm msg body st)) = diagnostics st \<or>
        (fst (try_except nm msg body st) = Inl (SystemExit None) \<and>
         (\<exists>line. diagnostics (snd (try_except nm msg body st)) = diagnostics st @ [line]))"
    using a m by (cases r) (auto simp: try_except_def then_run_def call_error_def exit_py_def)
qed

lemma one_line_then_run:
  assumes "one_line_then_exit m" and "\<And>x. one_line_then_exit (f x)"
  shows "one_line_then_exit (then_run m f)"
  unfolding one_line_then_exit_def
proof
  fix st
  obtain r st' where m: "m st = (r, st')" by (cases "m st")
  from assms(1) have a: "diagnostics st' = diagnostics st \<or>
        (r = Inl (SystemExit None) \<and> (\<exists>line. diagnostics st' = diagnostics st @ [line]))"
    using m by (auto simp: one_line_then_exit_def dest: spec[of _ st])
  show "diagnostics (snd (then_run m f st)) = diagnostics st \<or>
        (fst (then_run m f st) = Inl (SystemExit None) \<and>
         (\<exists>line. diagnostics (snd (then_run m f st)) = diagnostics st @ [line]))"
  proof (cases r)
    case (Inl e)
    then show ?thesis using a m by (simp add: then_run_def)
  next
    case (Inr x)
    with a have d: "diagnostics st' = diagnostics st" by simp
    from assms(2)[of x] have "diagnostics (snd (f x st')) = diagnostics st' \<or>
        (fst (f x st') = Inl (SystemExit None) \<and>
         (\<exists>line. diagnostics (snd (f x st')) = diagnostics st' @ [line]))"
      by (simp add: one_line_then_exit_def)
    then show ?thesis using m Inr d by (simp add: then_run_def)
  qed
qed

lemmas one_line_intros =
  one_line_then_run one_line_try_except one_line_lift
  silent_lift silent_read silent_write silent_set_credentials

lemma one_line_song: "one_line_then_exit (process_song_data nm w input_data output_data)"
  unfolding process_song_data_def by (intro one_line_intros)

lemma one_line_log: "one_line_then_exit (process_log_data nm w input_data output_data)"
  unfolding process_log_data_def by (intro one_line_intros)

lemma one_line_main: "one_line_then_exit (main nm w)"
  unfolding main_def by (intro one_line_intros one_line_song one_line_log)

lemma etl_diagnostics:
  "diagnostics (snd (etl nm w)) = [] \<or>
   (fst (etl nm w) = Inl (SystemExit None) \<and> (\<exists>line. diagnostics (snd (etl nm w)) = [line]))"
proof -
  have "one_line_then_exit
     (then_run (try_except nm ''Error reading config file: '' (lift (read_config w))) (\<lambda>config.
     then_run (try_except nm ''Error setting AWS credential Environment Variables: ''
                 (set_credentials config)) (\<lambda>u.
     main nm w)))"
    by (intro one_line_intros one_line_main)
  then show ?thesis
    unfolding one_line_then_exit_def etl_def
    by (auto simp: initial_def dest: spec[of _ initial])
qed

lemma silent_try_except:
  assumes "\<not> error_bound nm" and "silent body"
  shows "silent (try_except nm msg body)"
  unfolding silent_def
proof
  fix st
  obtain r st' where m: "body st = (r, st')" by (cases "body st")
  have a: "diagnostics st' = diagnostics st"
    using assms(2) m by (auto simp: silent_def dest: spec[of _ st])
  show "diagnostics (snd (try_except nm msg body st)) = diagnostics st"
    using a m assms(1) by (cases r) (auto simp: try_except_def then_run_def call_error_def exit_py_def)
qed

lemma silent_then_run:
  assumes "silent m" and "\<And>x. silent (f x)"
  shows "silent (then_run m f)"
  unfolding silent_def
proof
  fix st
  obtain r st' where m: "m st = (r, st')" by (cases "m st")
  have a: "diagnostics st' = diagnostics st"
    using assms(1) m by (auto simp: silent_def dest: spec[of _ st])
  show "diagnostics (snd (then_run m f st)) = diagnostics st"
    using a m assms(2) by (cases r) (auto simp: then_run_def silent_def)
qed

lemma etl_names_unbound: "\<not> error_bound etl_names"
  by (simp add: etl_names_def module_bindings_def)

lemmas silent_intros =
  silent_then_run silent_try_except[OF etl_names_unbound]
  silent_lift silent_read silent_write silent_set_credentials

lemma etl_as_is_silent: "diagnostics (snd (etl etl_names w)) = []"
proof -
  have "silent
     (then_run (try_except etl_names ''Error reading config file: '' (lift (read_config w))) (\<lambda>config.
     then_run (try_except etl_names ''Error setting AWS credential Environment Variables: ''
                 (set_credentials config)) (\<lambda>u.
     main etl_names w)))"
    unfolding main_def process_song_data_def process_log_data_def
    by (intro silent_intros)
  then show ?thesis
    unfolding silent_def etl_def
    by (auto simp: initial_def dest: spec[of _ initial])
qed

lemma always_raises_then_run: "(\<And>x. always_raises (f x)) \<Longrightarrow> always_raises (then_run m f)"
  by (auto simp: always_raises_def then_run_def split: prod.splits sum.splits)

lemma always_raises_lift_Inl: "always_raises (lift (Inl e))"
  by (simp add: always_raises_def lift_def)

lemma etl_as_is_raises: "isl (fst (etl etl_names w))"
proof -
  have "always_raises
     (then_run (try_except etl_names ''Error reading config file: '' (lift (read_config w))) (\<lambda>config.
     then_run (try_except etl_names ''Error setting AWS credential Environment Variables: ''
                 (set_credentials config)) (\<lambda>u.
     main etl_names w)))"
    unfolding main_def process_log_data_as_is
    by (intro always_raises_then_run always_raises_lift_Inl)
  then show ?thesis
    by (simp add: always_raises_def etl_def)
qed

subsection \<open>What a run reads, and what reads the environment\<close>









































subsection \<open>Cells of projected, extended and joined rows\<close>

lemma index_of_less: "c \<in> set cols \<Longrightarrow> index_of cols c < length cols"
  by (induction cols) auto

lemma nth_index_of: "c \<in> set cols \<Longrightarrow> cols ! index_of cols c = c"
  by (induction cols) auto

lemma index_of_append_left: "c \<in> set xs \<Longrightarrow> index_of (xs @ ys) c = index_of xs c"
  by (induction xs) auto

lemma index_of_append_right: "c \<notin> set xs \<Longrightarrow> index_of (xs @ ys) c = length xs + index_of ys c"
  by (induction xs) auto

lemma count_list_0: "count_list xs c = 0 \<longleftrightarrow> c \<notin> set xs"
  by (induction xs) auto

lemma cell_append_left:
  assumes "c \<in> set cl" and "length x = length cl"
  shows "cell (cl @ cs) (x @ y) c = cell cl x c"
  using assms index_of_less[OF assms(1)]
  by (simp add: cell_def index_of_append_left nth_append)

lemma cell_append_right:
  assumes "c \<notin> set cl" and "length x = length cl"
  shows "cell (cl @ cs) (x @ y) c = cell cs y c"
  using assms by (simp add: cell_def index_of_append_right nth_append)

lemma cell_project:
  assumes "c \<in> set cs"
  shows "cell cs (project cols cs r) c = cell cols r c"
  using index_of_less[OF assms] nth_index_of[OF assms]
  by (simp add: cell_def project_def)

lemma cell_put_cell_other:
  assumes "c \<noteq> n" and "c \<in> set cols" and "length r = length cols"
  shows "cell (if n \<in> set cols then cols else cols @ [n]) (put_cell cols n r v) c = cell cols r c"
  using assms index_of_less[OF assms(2)] nth_index_of[OF assms(2)]
  by (auto simp: cell_def put_cell_def index_of_append_left nth_append)

lemma cell_put_cell_same:
  assumes "length r = length cols"
  shows "cell (if n \<in> set cols then cols else cols @ [n]) (put_cell cols n r v) n = v"
proof (cases "n \<in> set cols")
  case True
  then show ?thesis
    using assms index_of_less[OF True] nth_index_of[OF True]
    by (simp add: cell_def put_cell_def)
next
  case False
  then show ?thesis
    using assms by (simp add: cell_def put_cell_def index_of_append_right nth_append)
qed

lemma map_zip_left:
  assumes "length ys = length xs" and "\<And>x y. x \<in> set xs \<Longrightarrow> f (x, y) = k x"
  shows "map f (zip xs ys) = map k xs"
  using assms
proof (induction xs arbitrary: ys)
  case Nil
  then show ?case by simp
next
  case (Cons x xs)
  then show ?case by (cases ys) auto
qed

lemma map_zip_right:
  assumes "length ys = length xs" and "\<And>x y. x \<in> set xs \<Longrightarrow> f (x, y) = y"
  shows "map f (zip xs ys) = ys"
  using assms
proof (induction xs arbitrary: ys)
  case Nil
  then show ?case by simp
next
  case (Cons x xs)
  then show ?case by (cases ys) auto
qed

lemma length_partition_ids: "length (partition_ids p ss n) = n"
  by (induction ss arbitrary: p n) auto

lemma join_on_well_formed:
  assumes "well_formed l" and "well_formed r"
  shows "well_formed (join_on l a r b)"
  using assms
  by (auto simp: well_formed_def join_on_def matching_def list_all_iff)

subsection \<open>The fact table in terms of the joined rows\<close>

text \<open>What lines 172 to 175 compute, when they succeed.\<close>

lemma songplays_table_Inr:
  assumes "songplays_table w df song_df = Inr t"
  shows "\<exists>joined vs.
           joined = join_on df ''artist'' song_df ''artist_name'' \<and>
           vs = map VInt (monotonically_increasing_id (partition_sizes w) (length (rws joined))) \<and>
           length vs = length (rws joined) \<and>
           columns t = songplays_columns \<and>
           rws t = map (project (columns (withColumn ''songplay_id'' vs joined)) songplays_columns)
                     (map2 (put_cell (columns joined) ''songplay_id'') (rws joined) vs) \<and>
           (\<forall>c\<in>set songplays_columns. count_list (columns (withColumn ''songplay_id'' vs joined)) c = 1)"
  using assms
  by (auto simp: songplays_table_def and_then_Inr col_attr_def Let_def withColumn_def
        monotonically_increasing_id_def length_partition_ids
        split: if_splits dest!: select_Inr)

lemma count_list_append: "count_list (xs @ ys) c = count_list xs c + count_list ys c"
  by (induction xs) auto

lemma matching_filter:
  "matching df ''artist'' song_df ''artist_name'' x
     = filter (\<lambda>y. cell (columns df) x ''artist'' \<noteq> VNull \<and>
                     cell (columns song_df) y ''artist_name'' = cell (columns df) x ''artist'')
         (rws song_df)"
  unfolding matching_def by (rule filter_cong) (auto simp: sql_eq_def)

text \<open>The cells of a fact row, read off the joined row it comes from.\<close>

lemma fact_cell:
  assumes one: "count_list (if ''songplay_id'' \<in> set cols then cols else cols @ [''songplay_id'']) c = 1"
    and c: "c \<in> set songplays_columns" and ne: "c \<noteq> ''songplay_id''"
    and len: "length rj = length cols"
  shows "cell songplays_columns
           (project (if ''songplay_id'' \<in> set cols then cols else cols @ [''songplay_id''])
              songplays_columns (put_cell cols ''songplay_id'' rj v)) c
         = cell cols rj c"
proof -
  have "count_list cols c = 1" using one ne by (simp add: count_list_append split: if_splits)
  then have "c \<in> set cols" using count_list_0[of cols c] by auto
  from cell_put_cell_other[OF ne this len] show ?thesis
    by (simp add: cell_project[OF c])
qed

lemma fact_cell_id:
  assumes len: "length rj = length cols"
  shows "cell songplays_columns
           (project (if ''songplay_id'' \<in> set cols then cols else cols @ [''songplay_id''])
              songplays_columns (put_cell cols ''songplay_id'' rj v)) ''songplay_id''
         = v"
proof -
  have "''songplay_id'' \<in> set songplays_columns" by (simp add: songplays_columns_def)
  from cell_project[OF this] cell_put_cell_same[OF len] show ?thesis by simp
qed

lemma joined_cell_log:
  assumes "count_list (cl @ cs) c = 1" and "c \<in> set cl" and "length x = length cl"
  shows "cell (cl @ cs) (x @ y) c = cell cl x c"
  using assms by (simp add: cell_append_left)

lemma joined_cell_song:
  assumes "count_list (cl @ cs) c = 1" and "c \<in> set cs" and "length x = length cl"
  shows "cell (cl @ cs) (x @ y) c = cell cs y c"
proof -
  have "count_list cs c \<noteq> 0" using assms(2) count_list_0[of cs c] by simp
  then have "count_list cl c = 0" using assms(1) by (simp add: count_list_append)
  then have "c \<notin> set cl" using count_list_0[of cl c] by simp
  then show ?thesis using assms(3) by (rule cell_append_right)
qed

lemma songplays_rows:
  assumes ok: "songplays_table w df song_df = Inr t"
    and wf: "well_formed df" "well_formed song_df"
    and log_side: "''user_id'' \<in> set (columns df)" "''session_id'' \<in> set (columns df)"
    and song_side: "''song_id'' \<in> set (columns song_df)" "''artist_id'' \<in> set (columns song_df)"
  shows "map (\<lambda>r. (cell (columns t) r ''user_id'', cell (columns t) r ''session_id'',
                    cell (columns t) r ''song_id'', cell (columns t) r ''artist_id'')) (rws t)
         = concat (map (\<lambda>x. map (\<lambda>y. (cell (columns df) x ''user_id'', cell (columns df) x ''session_id'',
                                         cell (columns song_df) y ''song_id'',
                                         cell (columns song_df) y ''artist_id''))
                     (filter (\<lambda>y. cell (columns df) x ''artist'' \<noteq> VNull \<and>
                                   cell (columns song_df) y ''artist_name'' = cell (columns df) x ''artist'')
                        (rws song_df))) (rws df)) \<and>
         length (rws t)
           = (\<Sum>x\<leftarrow>rws df. length (filter (\<lambda>y. cell (columns df) x ''artist'' \<noteq> VNull \<and>
                                   cell (columns song_df) y ''artist_name'' = cell (columns df) x ''artist'')
                        (rws song_df)))"
proof -
  let ?cl = "columns df" and ?cs = "columns song_df"
  let ?M = "\<lambda>x. filter (\<lambda>y. cell ?cl x ''artist'' \<noteq> VNull \<and>
                           cell ?cs y ''artist_name'' = cell ?cl x ''artist'') (rws song_df)"
  let ?J = "join_on df ''artist'' song_df ''artist_name''"
  let ?cw = "if ''songplay_id'' \<in> set (?cl @ ?cs) then ?cl @ ?cs else (?cl @ ?cs) @ [''songplay_id'']"
  from songplays_table_Inr[OF ok] obtain vs where
    len: "length vs = length (rws ?J)" and ct: "columns t = songplays_columns"
    and rt: "rws t = map (project (columns (withColumn ''songplay_id'' vs ?J)) songplays_columns)
                     (map2 (put_cell (columns ?J) ''songplay_id'') (rws ?J) vs)"
    and one: "\<forall>c\<in>set songplays_columns. count_list (columns (withColumn ''songplay_id'' vs ?J)) c = 1"
    by blast
  have cj: "columns ?J = ?cl @ ?cs" by (simp add: join_on_def)
  have cw: "columns (withColumn ''songplay_id'' vs ?J) = ?cw"
    by (simp add: withColumn_def cj)
  have rj: "rws ?J = concat (map (\<lambda>x. map (\<lambda>y. x @ y) (?M x)) (rws df))"
    by (simp add: join_on_def matching_filter)
  have wfj: "\<And>r. r \<in> set (rws ?J) \<Longrightarrow> length r = length (?cl @ ?cs)"
    using join_on_well_formed[OF wf, of "''artist''" "''artist_name''"]
    by (simp add: well_formed_def list_all_iff cj)
  have one': "\<And>c. c \<in> set songplays_columns \<Longrightarrow> count_list ?cw c = 1"
    using one cw by simp
  have onej: "\<And>c. c \<in> set songplays_columns \<Longrightarrow> c \<noteq> ''songplay_id'' \<Longrightarrow>
                count_list (?cl @ ?cs) c = 1"
  proof -
    fix c assume a: "c \<in> set songplays_columns" "c \<noteq> ''songplay_id''"
    from one'[OF a(1)] a(2) show "count_list (?cl @ ?cs) c = 1"
      by (simp add: count_list_append split: if_splits)
  qed
  have lx: "\<And>x. x \<in> set (rws df) \<Longrightarrow> length x = length ?cl"
    using wf(1) by (simp add: well_formed_def list_all_iff)
  let ?g = "\<lambda>r. (cell songplays_columns r ''user_id'', cell songplays_columns r ''session_id'',
                  cell songplays_columns r ''song_id'', cell songplays_columns r ''artist_id'')"
  let ?k = "\<lambda>r. (cell (?cl @ ?cs) r ''user_id'', cell (?cl @ ?cs) r ''session_id'',
                  cell (?cl @ ?cs) r ''song_id'', cell (?cl @ ?cs) r ''artist_id'')"
  let ?T = "\<lambda>x y. (cell ?cl x ''user_id'', cell ?cl x ''session_id'',
                    cell ?cs y ''song_id'', cell ?cs y ''artist_id'')"
  have in_spc: "''user_id'' \<in> set songplays_columns" "''session_id'' \<in> set songplays_columns"
    "''song_id'' \<in> set songplays_columns" "''artist_id'' \<in> set songplays_columns"
    by (simp_all add: songplays_columns_def)
  have "map ?g (rws t)
          = map (\<lambda>p. ?g (project ?cw songplays_columns
                           (put_cell (?cl @ ?cs) ''songplay_id'' (fst p) (snd p))))
              (zip (rws ?J) vs)"
    by (simp add: rt cw cj case_prod_beta comp_def)
  also have "\<dots> = map ?k (rws ?J)"
  proof (rule map_zip_left[OF len])
    fix r v assume r: "r \<in> set (rws ?J)"
    note l = wfj[OF r]
    show "?g (project ?cw songplays_columns
                (put_cell (?cl @ ?cs) ''songplay_id'' (fst (r, v)) (snd (r, v)))) = ?k r"
      using fact_cell[OF one'[OF in_spc(1)] in_spc(1) _ l, of v]
            fact_cell[OF one'[OF in_spc(2)] in_spc(2) _ l, of v]
            fact_cell[OF one'[OF in_spc(3)] in_spc(3) _ l, of v]
            fact_cell[OF one'[OF in_spc(4)] in_spc(4) _ l, of v]
      by simp
  qed
  finally have step1: "map ?g (rws t) = map ?k (rws ?J)" .
  have step2: "map ?k (rws ?J) = concat (map (\<lambda>x. map (\<lambda>y. ?k (x @ y)) (?M x)) (rws df))"
    unfolding rj by (simp add: map_concat comp_def)
  have step3: "concat (map (\<lambda>x. map (\<lambda>y. ?k (x @ y)) (?M x)) (rws df))
                 = concat (map (\<lambda>x. map (\<lambda>y. ?T x y) (?M x)) (rws df))"
  proof (intro arg_cong[of _ _ concat] map_cong refl)
    fix x y assume x: "x \<in> set (rws df)"
    show "?k (x @ y) = ?T x y"
      using joined_cell_log[OF onej[OF in_spc(1)] log_side(1) lx[OF x], of y]
            joined_cell_log[OF onej[OF in_spc(2)] log_side(2) lx[OF x], of y]
            joined_cell_song[OF onej[OF in_spc(3)] song_side(1) lx[OF x], of y]
            joined_cell_song[OF onej[OF in_spc(4)] song_side(2) lx[OF x], of y]
      by simp
  qed
  have rows: "map ?g (rws t) = concat (map (\<lambda>x. map (\<lambda>y. ?T x y) (?M x)) (rws df))"
    using step1 step2 step3 by simp
  have "length (rws t) = length (rws ?J)"
    unfolding rt using len by simp
  also have "\<dots> = (\<Sum>x\<leftarrow>rws df. length (?M x))"
    unfolding rj by (simp add: length_concat comp_def)
  finally have count: "length (rws t) = (\<Sum>x\<leftarrow>rws df. length (?M x))" .
  from rows count show ?thesis unfolding ct by simp
qed

subsection \<open>The identifiers the engine assigns\<close>

lemma row_id_plain:
  assumes "p < 2 ^ 30" and "i < 2 ^ 33"
  shows "row_id p i = int p * 2 ^ 33 + int i"
proof -
  have p: "int p \<le> 2 ^ 30 - 1" using assms(1) by simp
  have i: "int i < 2 ^ 33" using assms(2) by simp
  have "int p * 2 ^ 33 \<le> (2 ^ 30 - 1) * 2 ^ 33" using p by simp
  then have "int p * 2 ^ 33 + int i < 2 ^ 63" using i by simp
  moreover have "0 \<le> int p * 2 ^ 33 + int i" by simp
  ultimately show ?thesis by (simp add: row_id_def wrap64_def)
qed

lemma partition_chunk:
  assumes "p < 2 ^ 30" and "k \<le> 2 ^ 33"
  shows "sorted_wrt (<) (map (row_id p) [0..<k]) \<and>
         (\<forall>x\<in>set (map (row_id p) [0..<k]). int p * 2 ^ 33 \<le> x \<and> x < (int p + 1) * 2 ^ 33)"
proof -
  have eq: "map (row_id p) [0..<k] = map (\<lambda>i. int p * 2 ^ 33 + int i) [0..<k]"
    using assms by (intro map_cong refl row_id_plain) auto
  have "sorted_wrt (<) (map (\<lambda>i. int p * 2 ^ 33 + int i) [0..<k])"
    by (simp add: sorted_wrt_map sorted_wrt_iff_nth_less)
  moreover have "\<forall>x\<in>set (map (\<lambda>i. int p * 2 ^ 33 + int i) [0..<k]).
                   int p * 2 ^ 33 \<le> x \<and> x < (int p + 1) * 2 ^ 33"
    using assms(2) by (auto simp: algebra_simps)
  ultimately show ?thesis unfolding eq by simp
qed

lemma partition_ids_increasing:
  assumes "p + length ss < 2 ^ 30" and "\<forall>s\<in>set ss. s \<le> 2 ^ 33" and "n - sum_list ss \<le> 2 ^ 33"
  shows "sorted_wrt (<) (partition_ids p ss n) \<and>
         (\<forall>x\<in>set (partition_ids p ss n). int p * 2 ^ 33 \<le> x \<and> x < 2 ^ 63)"
  using assms
proof (induction ss arbitrary: p n)
  case Nil
  then have "p < 2 ^ 30" and n: "n \<le> 2 ^ 33" by simp_all
  from partition_chunk[OF this] have
    s: "sorted_wrt (<) (map (row_id p) [0..<n])" and
    b: "\<forall>x\<in>set (map (row_id p) [0..<n]). int p * 2 ^ 33 \<le> x \<and> x < (int p + 1) * 2 ^ 33"
    by blast+
  have "(int p + 1) * 2 ^ 33 \<le> 2 ^ 30 * (2 ^ 33 :: int)"
    using \<open>p < 2 ^ 30\<close> by (intro mult_right_mono) auto
  then have "(int p + 1) * 2 ^ 33 \<le> (2 ^ 63 :: int)" by simp
  with s b show ?case by fastforce
next
  case (Cons s ss)
  then have p: "p < 2 ^ 30" and k: "min s n \<le> 2 ^ 33" by auto
  from partition_chunk[OF p k] have
    s1: "sorted_wrt (<) (map (row_id p) [0..<min s n])" and
    b1: "\<forall>x\<in>set (map (row_id p) [0..<min s n]). int p * 2 ^ 33 \<le> x \<and> x < (int p + 1) * 2 ^ 33"
    by blast+
  have "Suc p + length ss < 2 ^ 30" and "\<forall>s\<in>set ss. s \<le> 2 ^ 33" and "(n - s) - sum_list ss \<le> 2 ^ 33"
    using Cons.prems by auto
  from Cons.IH[OF this] have
    s2: "sorted_wrt (<) (partition_ids (Suc p) ss (n - s))" and
    b2: "\<forall>x\<in>set (partition_ids (Suc p) ss (n - s)). int (Suc p) * 2 ^ 33 \<le> x \<and> x < 2 ^ 63"
    by blast+
  have le: "int p * 2 ^ 33 \<le> int (Suc p) * 2 ^ 33" by simp
  have "sorted_wrt (<) (map (row_id p) [0..<min s n] @ partition_ids (Suc p) ss (n - s))"
    unfolding sorted_wrt_append using s1 s2 b1 b2 by fastforce
  moreover have "\<forall>x\<in>set (map (row_id p) [0..<min s n] @ partition_ids (Suc p) ss (n - s)).
                   int p * 2 ^ 33 \<le> x \<and> x < 2 ^ 63"
  proof
    fix x assume "x \<in> set (map (row_id p) [0..<min s n] @ partition_ids (Suc p) ss (n - s))"
    then consider "x \<in> set (map (row_id p) [0..<min s n])"
      | "x \<in> set (partition_ids (Suc p) ss (n - s))" by auto
    then show "int p * 2 ^ 33 \<le> x \<and> x < 2 ^ 63"
    proof cases
      case 1
      have "(int p + 1) * 2 ^ 33 \<le> 2 ^ 30 * (2 ^ 33 :: int)"
        using p by (intro mult_right_mono) auto
      then have "(int p + 1) * 2 ^ 33 \<le> (2 ^ 63 :: int)" by simp
      with b1 1 show ?thesis by fastforce
    next
      case 2
      with b2 le show ?thesis by fastforce
    qed
  qed
  ultimately show ?case by simp
qed

lemma monotonically_increasing_id_increasing:
  assumes "length ss < 2 ^ 30" and "list_all (\<lambda>s. s \<le> 2 ^ 33) ss" and "n - sum_list ss \<le> 2 ^ 33"
  shows "sorted_wrt (<) (monotonically_increasing_id ss n) \<and>
         distinct (monotonically_increasing_id ss n) \<and>
         (\<forall>x\<in>set (monotonically_increasing_id ss n). 0 \<le> x \<and> x < 2 ^ 63)"
proof -
  have "0 + length ss < 2 ^ 30" using assms(1) by simp
  from partition_ids_increasing[OF this _ assms(3)] assms(2)
  have s: "sorted_wrt (<) (partition_ids 0 ss n)"
    and b: "\<forall>x\<in>set (partition_ids 0 ss n). 0 \<le> x \<and> x < 2 ^ 63"
    by (auto simp: list_all_iff)
  have "distinct (partition_ids 0 ss n)"
    using s strict_sorted_iff[of "partition_ids 0 ss n"] by simp
  with s b show ?thesis by (simp add: monotonically_increasing_id_def)
qed

lemma songplay_id_values:
  assumes ok: "songplays_table w df song_df = Inr t"
    and wf: "well_formed df" "well_formed song_df"
  shows "map (\<lambda>r. cell (columns t) r ''songplay_id'') (rws t)
           = map VInt (monotonically_increasing_id (partition_sizes w) (length (rws t))) \<and>
         length (rws t) = length (rws (join_on df ''artist'' song_df ''artist_name''))"
proof -
  let ?cl = "columns df" and ?cs = "columns song_df"
  let ?J = "join_on df ''artist'' song_df ''artist_name''"
  let ?cw = "if ''songplay_id'' \<in> set (?cl @ ?cs) then ?cl @ ?cs else (?cl @ ?cs) @ [''songplay_id'']"
  from songplays_table_Inr[OF ok] obtain vs where
    vs: "vs = map VInt (monotonically_increasing_id (partition_sizes w) (length (rws ?J)))"
    and len: "length vs = length (rws ?J)" and ct: "columns t = songplays_columns"
    and rt: "rws t = map (project (columns (withColumn ''songplay_id'' vs ?J)) songplays_columns)
                     (map2 (put_cell (columns ?J) ''songplay_id'') (rws ?J) vs)"
    by blast
  have cj: "columns ?J = ?cl @ ?cs" by (simp add: join_on_def)
  have cw: "columns (withColumn ''songplay_id'' vs ?J) = ?cw"
    by (simp add: withColumn_def cj)
  have wfj: "\<And>r. r \<in> set (rws ?J) \<Longrightarrow> length r = length (?cl @ ?cs)"
    using join_on_well_formed[OF wf, of "''artist''" "''artist_name''"]
    by (simp add: well_formed_def list_all_iff cj)
  have n: "length (rws t) = length (rws ?J)" unfolding rt using len by simp
  have "map (\<lambda>r. cell songplays_columns r ''songplay_id'') (rws t)
          = map (\<lambda>p. cell songplays_columns (project ?cw songplays_columns
                           (put_cell (?cl @ ?cs) ''songplay_id'' (fst p) (snd p))) ''songplay_id'')
              (zip (rws ?J) vs)"
    by (simp add: rt cw cj case_prod_beta comp_def)
  also have "\<dots> = vs"
  proof (rule map_zip_right[OF len])
    fix r v assume r: "r \<in> set (rws ?J)"
    show "cell songplays_columns (project ?cw songplays_columns
            (put_cell (?cl @ ?cs) ''songplay_id'' (fst (r, v)) (snd (r, v)))) ''songplay_id'' = v"
      using fact_cell_id[OF wfj[OF r], of v] by simp
  qed
  finally have "map (\<lambda>r. cell (columns t) r ''songplay_id'') (rws t)
                  = map VInt (monotonically_increasing_id (partition_sizes w) (length (rws t)))"
    unfolding ct vs n .
  with n show ?thesis by simp
qed

lemma count_list_1_mem: "count_list xs c = 1 \<Longrightarrow> c \<in> set xs"
  using count_list_0[of xs c] by auto

lemma songplays_table_built:
  assumes "fact_schema df song_df"
  shows "\<exists>t. songplays_table w df song_df = Inr t"
proof -
  let ?cols = "(columns df @ columns song_df) @ [''songplay_id'']"
  have "\<forall>c\<in>set songplays_columns. count_list ?cols c = 1"
    using assms count_list_0[of "columns df"] count_list_0[of "columns song_df"]
    by (auto simp: fact_schema_def songplays_columns_def count_list_append)
  then have "find (\<lambda>c. count_list ?cols c \<noteq> 1) songplays_columns = None"
    by (simp add: find_None_iff)
  then show ?thesis
    using assms
    by (simp add: songplays_table_def and_then_def col_attr_def Let_def select_def withColumn_def
          join_on_def fact_schema_def)
qed

lemma id_collision: "row_id 0 (2 ^ 33) = row_id 1 0"
  by (simp add: row_id_def)

lemma crowded_ids_collide: "\<not> distinct (monotonically_increasing_id [crowd] (Suc crowd))"
proof -
  have a: "row_id 0 (2 ^ 33) \<in> set (map (row_id 0) [0..<min crowd (Suc crowd)])"
    by (simp add: crowd_def)
  have b: "row_id 1 0 \<in> set (map (row_id 1) [0..<Suc crowd - crowd])"
    by simp
  have "row_id 0 (2 ^ 33) \<in> set (map (row_id 0) [0..<min crowd (Suc crowd)])
          \<inter> set (map (row_id (Suc 0)) [0..<Suc crowd - crowd])"
    using a b id_collision by simp
  then have "\<not> distinct (map (row_id 0) [0..<min crowd (Suc crowd)]
                          @ map (row_id (Suc 0)) [0..<Suc crowd - crowd])"
    unfolding distinct_append by blast
  then show ?thesis by (simp add: monotonically_increasing_id_def)
qed

subsection \<open>The filter on the page\<close>

lemma nextsong_df_rows:
  assumes "nextsong_df df = Inr d"
  shows "rws d = filter (\<lambda>r. cell (columns df) r ''page'' = VStr ''NextSong'') (rws df)"
  using assms
  by (auto simp: nextsong_df_def and_then_Inr col_attr_def withColumnRenamed_def filter_eq_def
           split: if_splits)

lemma nextsong_df_only_nextsong:
  "nextsong_df (df\<lparr>rws := filter (\<lambda>r. cell (columns df) r ''page'' = VStr ''NextSong'') (rws df)\<rparr>)
     = nextsong_df df"
  by (simp add: nextsong_df_def and_then_def col_attr_def filter_eq_def)

lemma then_run_guarded_read:
  "json_files w p = Inr df \<Longrightarrow>
     then_run (try_except nm msg (spark_read_json w p)) f st = f df (st\<lparr>reads := reads st @ [p]\<rparr>)"
  by (simp add: then_run_def try_except_def spark_read_json_def)

lemma process_log_data_only_nextsong:
  assumes "json_files w (input_data @ ''log_data/*.json'') = Inr df"
  shows "process_log_data nm
           (w\<lparr>json_files := (json_files w)
              (input_data @ ''log_data/*.json'' :=
                 Inr (df\<lparr>rws := filter (\<lambda>r. cell (columns df) r ''page'' = VStr ''NextSong'') (rws df)\<rparr>))\<rparr>)
           input_data output_data st
         = process_log_data nm w input_data output_data st"
proof -
  let ?df' = "df\<lparr>rws := filter (\<lambda>r. cell (columns df) r ''page'' = VStr ''NextSong'') (rws df)\<rparr>"
  let ?w' = "w\<lparr>json_files := (json_files w)(input_data @ ''log_data/*.json'' := Inr ?df')\<rparr>"
  have b: "write_parquet ?w' = write_parquet w"
    by (intro ext) (simp add: write_parquet_def split: option.splits)
  have g: "get_timestamp ?w' = get_timestamp w"
    by (intro ext) (simp add: get_timestamp_def split: val.splits)
  have d: "with_start_time ?w' = with_start_time w"
    by (intro ext) (simp add: with_start_time_def g)
  have e: "with_datetime_columns ?w' = with_datetime_columns w"
    by (intro ext) (simp add: with_datetime_columns_def g)
  have f: "songplays_table ?w' = songplays_table w"
    by (intro ext) (simp add: songplays_table_def)
  have s: "spark_read_json ?w' (input_data @ ''song_data/*/*/*/*.json'')
             = spark_read_json w (input_data @ ''song_data/*/*/*/*.json'')"
    by (intro ext) (simp add: spark_read_json_def)
  have l: "json_files ?w' (input_data @ ''log_data/*.json'') = Inr ?df'" by simp
  show ?thesis
    unfolding process_log_data_def b d e f s
    unfolding then_run_guarded_read[OF l] then_run_guarded_read[OF assms]
    unfolding nextsong_df_only_nextsong ..
qed

section \<open>The claims\<close>

subsection \<open>The partition columns of the tables written\<close>

text \<open>
  C1. The songs table has the columns \<open>year\<close> and \<open>artist_id\<close> it is partitioned by,
  and the time table has \<open>year\<close> and \<open>month\<close>. The songplays table has not: whenever
  lines 172 to 175 build it, it has the nine projected columns, neither \<open>year\<close> nor
  \<open>month\<close> among them, the write partitioned by (year, month) is refused by the
  analyser and nothing is written; so no run, whatever the names bound and whatever the
  world, writes anything under \<open>song_plays\<close>.
\<close>

theorem songplays_lacks_partition_columns:
  "(\<forall>t. songplays_table w df song_df = Inr t \<longrightarrow>
        columns t = songplays_columns \<and> ''year'' \<notin> set (columns t) \<and> ''month'' \<notin> set (columns t) \<and>
        write_parquet w path [''year'', ''month''] t st
          = (Inl (AnalysisException ''Partition column year not found in schema''), st)) \<and>
   ''s3a://gy-nano-bkt//song_plays'' \<notin> fst ` set (written (snd (etl nm w))) \<and>
   (\<forall>t. songs_table df1 = Inr t \<longrightarrow> ''year'' \<in> set (columns t) \<and> ''artist_id'' \<in> set (columns t)) \<and>
   (\<forall>t. time_table df2 = Inr t \<longrightarrow> ''year'' \<in> set (columns t) \<and> ''month'' \<in> set (columns t))"
proof (intro conjI allI impI)
  fix t assume h: "songplays_table w df song_df = Inr t"
  show c: "columns t = songplays_columns" by (rule songplays_table_columns[OF h])
  show "''year'' \<notin> set (columns t)" unfolding c by (simp add: songplays_columns_def)
  show "''month'' \<notin> set (columns t)" unfolding c by (simp add: songplays_columns_def)
  show "write_parquet w path [''year'', ''month''] t st
          = (Inl (AnalysisException ''Partition column year not found in schema''), st)"
    by (rule songplays_write_refused[OF c])
next
  show "''s3a://gy-nano-bkt//song_plays'' \<notin> fst ` set (written (snd (etl nm w)))"
    using etl_writes[of nm w] by auto
next
  fix t assume "songs_table df1 = Inr t"
  then have "and_then (select [''song_id'', ''title'', ''artist_id'', ''year'', ''duration''] df1)
               (\<lambda>t. Inr (dropDuplicates t)) = Inr t"
    by (simp add: songs_table_def)
  from dedup_table[OF this]
  show "''year'' \<in> set (columns t)" and "''artist_id'' \<in> set (columns t)" by simp_all
next
  fix t assume "time_table df2 = Inr t"
  then have "and_then (select [''start_time'', ''hour'', ''day'', ''week'', ''month'',
                               ''year'', ''weekday''] df2)
               (\<lambda>t. Inr (dropDuplicates t)) = Inr t"
    by (simp add: time_table_def)
  from dedup_table[OF this]
  show "''year'' \<in> set (columns t)" and "''month'' \<in> set (columns t)" by simp_all
qed

text \<open>
  The theorem at the log frame of the one event of the scenario and its one song: the
  fact table is built, and its write is refused.
\<close>

theorem songplays_lacks_partition_columns_witness:
  "songplays_table scenario played one_song = Inr songplays_out \<and>
   songs_table one_song = Inr (songs_out\<lparr>rws := [[VStr ''S1'', VStr ''T'', VStr ''AR1'', VInt 2000, VDouble 180]]\<rparr>) \<and>
   time_table played = Inr time_out \<and>
   columns songplays_out = songplays_columns \<and>
   ''year'' \<notin> set (columns songplays_out) \<and> ''month'' \<notin> set (columns songplays_out) \<and>
   write_parquet scenario ''s3a://gy-nano-bkt//song_plays'' [''year'', ''month''] songplays_out initial
     = (Inl (AnalysisException ''Partition column year not found in schema''), initial) \<and>
   ''s3a://gy-nano-bkt//song_plays'' \<notin> fst ` set (written (snd (etl all_bound scenario))) \<and>
   ''year'' \<in> set (columns time_out) \<and> ''month'' \<in> set (columns time_out)"
proof -
  have h1: "songplays_table scenario played one_song = Inr songplays_out" by code_simp
  have h2: "songs_table one_song
              = Inr (songs_out\<lparr>rws := [[VStr ''S1'', VStr ''T'', VStr ''AR1'', VInt 2000, VDouble 180]]\<rparr>)"
    by code_simp
  have h3: "time_table played = Inr time_out" by code_simp
  note T = songplays_lacks_partition_columns[of scenario played one_song
             "''s3a://gy-nano-bkt//song_plays''" initial all_bound one_song played]
  from T h1 h2 h3 show ?thesis by blast
qed

subsection \<open>Where the users table is written\<close>

text \<open>
  C2. Line 121 builds the path of the users table with \<open>os.path.join(output_data,
  '/users')\<close>, whose second part is absolute: the result is \<open>/users\<close> whatever the output
  root is. In the run of the module on the scenario the tables written are songs and
  artists under the root and users at \<open>/users\<close>.
\<close>

theorem users_path_ignores_output_root:
  "os_path_join output_data ''/users'' = ''/users'' \<and>
   map fst (written (snd (etl etl_names scenario)))
     = [''s3a://gy-nano-bkt//songs'', ''s3a://gy-nano-bkt//artists'', ''/users''] \<and>
   map fst (written (snd (etl all_bound scenario)))
     = [''s3a://gy-nano-bkt//songs'', ''s3a://gy-nano-bkt//artists'', ''/users'',
        ''s3a://gy-nano-bkt//time'']"
proof (intro conjI)
  show "os_path_join output_data ''/users'' = ''/users''"
    by (simp add: os_path_join_def)
  show "map fst (written (snd (etl etl_names scenario)))
          = [''s3a://gy-nano-bkt//songs'', ''s3a://gy-nano-bkt//artists'', ''/users'']"
    by code_simp
  show "map fst (written (snd (etl all_bound scenario)))
     = [''s3a://gy-nano-bkt//songs'', ''s3a://gy-nano-bkt//artists'', ''/users'',
        ''s3a://gy-nano-bkt//time'']"
    by code_simp
qed

subsection \<open>What a failing run emits and how it ends\<close>

text \<open>
  C3. No run emits a diagnostic line and then ends with a status other than 0: a handler
  that can call \<open>error\<close> goes on to \<open>exit()\<close>, which carries no status. The module as
  the file has it binds no \<open>error\<close>, so it never emits a line at all: a missing
  credential and an unreadable input both end in \<open>NameError: name 'error' is not
  defined\<close>, raised inside the handler.
\<close>

theorem failure_diagnostic_and_status:
  "(diagnostics (snd (etl nm w)) = [] \<or> exit_status (fst (etl nm w)) = 0) \<and>
   diagnostics (snd (etl etl_names w)) = [] \<and>
   etl etl_names no_credentials = (Inl (NameError ''error''), initial) \<and>
   fst (etl etl_names no_input) = Inl (NameError ''error'') \<and>
   written (snd (etl etl_names no_input)) = [] \<and>
   exit_status (Inl (NameError ''error'')) = 1 \<and>
   etl all_bound no_credentials
     = (Inl (SystemExit None),
        initial\<lparr>diagnostics :=
          [''Error setting AWS credential Environment Variables: '' @ quote @ ''KEY'' @ quote]\<rparr>) \<and>
   exit_status (Inl (SystemExit None)) = 0"
proof (intro conjI)
  show "diagnostics (snd (etl nm w)) = [] \<or> exit_status (fst (etl nm w)) = 0"
    using etl_diagnostics[of nm w] by auto
  show "diagnostics (snd (etl etl_names w)) = []"
    by (rule etl_as_is_silent)
  show "etl etl_names no_credentials = (Inl (NameError ''error''), initial)"
    by code_simp
  show "fst (etl etl_names no_input) = Inl (NameError ''error'')"
    by code_simp
  show "written (snd (etl etl_names no_input)) = []"
    by code_simp
  show "exit_status (Inl (NameError ''error'')) = 1" by simp
  show "etl all_bound no_credentials
     = (Inl (SystemExit None),
        initial\<lparr>diagnostics :=
          [''Error setting AWS credential Environment Variables: '' @ quote @ ''KEY'' @ quote]\<rparr>)"
    by code_simp
  show "exit_status (Inl (SystemExit None)) = 0" by simp
qed

subsection \<open>The join of the fact table\<close>

text \<open>
  C4. For a log frame and a song frame of the schemas of line 172, lines 172 to 175
  build the fact table, and its rows are, event by event in the order of the log frame,
  one row for each song whose \<open>artist_name\<close> is equal to the event's \<open>artist\<close> (both
  not null, compared as they are, so case matters): the row carries the event's
  \<open>user_id\<close> and \<open>session_id\<close> and that song's \<open>song_id\<close> and \<open>artist_id\<close>. An
  event that no song matches contributes no row and raises nothing; an event that \<open>k\<close>
  songs match contributes \<open>k\<close> rows.
\<close>

theorem songplays_join:
  assumes schema: "fact_schema df song_df" and wf: "well_formed df" "well_formed song_df"
  shows "\<exists>t. songplays_table w df song_df = Inr t \<and>
           map (\<lambda>r. (cell (columns t) r ''user_id'', cell (columns t) r ''session_id'',
                      cell (columns t) r ''song_id'', cell (columns t) r ''artist_id'')) (rws t)
           = concat (map (\<lambda>x. map (\<lambda>y. (cell (columns df) x ''user_id'', cell (columns df) x ''session_id'',
                                           cell (columns song_df) y ''song_id'',
                                           cell (columns song_df) y ''artist_id''))
                       (filter (\<lambda>y. cell (columns df) x ''artist'' \<noteq> VNull \<and>
                                     cell (columns song_df) y ''artist_name'' = cell (columns df) x ''artist'')
                          (rws song_df))) (rws df)) \<and>
           length (rws t)
             = (\<Sum>x\<leftarrow>rws df. length (filter (\<lambda>y. cell (columns df) x ''artist'' \<noteq> VNull \<and>
                                     cell (columns song_df) y ''artist_name'' = cell (columns df) x ''artist'')
                          (rws song_df)))"
proof -
  from songplays_table_built[OF schema] obtain t where ok: "songplays_table w df song_df = Inr t" ..
  have l: "''user_id'' \<in> set (columns df)" "''session_id'' \<in> set (columns df)"
    and r: "''song_id'' \<in> set (columns song_df)" "''artist_id'' \<in> set (columns song_df)"
    using schema by (auto simp: fact_schema_def intro: count_list_1_mem)
  from songplays_rows[OF ok wf l r] ok show ?thesis by blast
qed

text \<open>
  The theorem at two events and two songs of the artist name \<open>Band\<close>: the event of
  artist \<open>Band\<close> gives two rows, the event of artist \<open>band\<close> none.
\<close>

theorem songplays_join_witness:
  "fact_schema played_mixed two_songs \<and> well_formed played_mixed \<and> well_formed two_songs \<and>
   rws played_mixed = [played_row, unmatched_row] \<and>
   cell (columns played_mixed) played_row ''artist'' = VStr ''Band'' \<and>
   cell (columns played_mixed) unmatched_row ''artist'' = VStr ''band'' \<and>
   map (\<lambda>y. cell (columns two_songs) y ''artist_name'') (rws two_songs) = [VStr ''Band'', VStr ''Band''] \<and>
   songplays_table split_in_two played_mixed two_songs = Inr facts_out \<and>
   map (\<lambda>r. (cell (columns facts_out) r ''user_id'', cell (columns facts_out) r ''session_id'',
              cell (columns facts_out) r ''song_id'', cell (columns facts_out) r ''artist_id''))
     (rws facts_out)
     = [(VStr ''7'', VInt 5, VStr ''S1'', VStr ''AR1''), (VStr ''7'', VInt 5, VStr ''S2'', VStr ''AR2'')] \<and>
   length (rws facts_out) = 2"
proof -
  have h1: "fact_schema played_mixed two_songs" by code_simp
  have h2: "well_formed played_mixed" by code_simp
  have h3: "well_formed two_songs" by code_simp
  have a: "rws played_mixed = [played_row, unmatched_row]" by (simp add: played_mixed_def)
  have b: "cell (columns played_mixed) played_row ''artist'' = VStr ''Band''" by code_simp
  have c: "cell (columns played_mixed) unmatched_row ''artist'' = VStr ''band''" by code_simp
  have d: "map (\<lambda>y. cell (columns two_songs) y ''artist_name'') (rws two_songs) = [VStr ''Band'', VStr ''Band'']"
    by code_simp
  have e: "songplays_table split_in_two played_mixed two_songs = Inr facts_out" by code_simp
  have r: "concat (map (\<lambda>x. map (\<lambda>y. (cell (columns played_mixed) x ''user_id'',
                                        cell (columns played_mixed) x ''session_id'',
                                        cell (columns two_songs) y ''song_id'',
                                        cell (columns two_songs) y ''artist_id''))
                     (filter (\<lambda>y. cell (columns played_mixed) x ''artist'' \<noteq> VNull \<and>
                                   cell (columns two_songs) y ''artist_name'' = cell (columns played_mixed) x ''artist'')
                        (rws two_songs))) (rws played_mixed))
           = [(VStr ''7'', VInt 5, VStr ''S1'', VStr ''AR1''), (VStr ''7'', VInt 5, VStr ''S2'', VStr ''AR2'')]"
    by code_simp
  have n: "(\<Sum>x\<leftarrow>rws played_mixed. length (filter (\<lambda>y. cell (columns played_mixed) x ''artist'' \<noteq> VNull \<and>
                                   cell (columns two_songs) y ''artist_name'' = cell (columns played_mixed) x ''artist'')
                        (rws two_songs))) = 2"
    by code_simp
  from songplays_join[OF h1 h2 h3, of split_in_two] obtain t where
    t: "songplays_table split_in_two played_mixed two_songs = Inr t"
    and m: "map (\<lambda>r. (cell (columns t) r ''user_id'', cell (columns t) r ''session_id'',
                      cell (columns t) r ''song_id'', cell (columns t) r ''artist_id'')) (rws t)
           = concat (map (\<lambda>x. map (\<lambda>y. (cell (columns played_mixed) x ''user_id'',
                                        cell (columns played_mixed) x ''session_id'',
                                        cell (columns two_songs) y ''song_id'',
                                        cell (columns two_songs) y ''artist_id''))
                     (filter (\<lambda>y. cell (columns played_mixed) x ''artist'' \<noteq> VNull \<and>
                                   cell (columns two_songs) y ''artist_name'' = cell (columns played_mixed) x ''artist'')
                        (rws two_songs))) (rws played_mixed))"
    and l: "length (rws t) = (\<Sum>x\<leftarrow>rws played_mixed. length (filter (\<lambda>y. cell (columns played_mixed) x ''artist'' \<noteq> VNull \<and>
                                   cell (columns two_songs) y ''artist_name'' = cell (columns played_mixed) x ''artist'')
                        (rws two_songs)))"
    by blast
  from t e have te: "t = facts_out" by simp
  from m r l n have "map (\<lambda>r. (cell (columns t) r ''user_id'', cell (columns t) r ''session_id'',
                      cell (columns t) r ''song_id'', cell (columns t) r ''artist_id'')) (rws t)
           = [(VStr ''7'', VInt 5, VStr ''S1'', VStr ''AR1''), (VStr ''7'', VInt 5, VStr ''S2'', VStr ''AR2'')]"
    and "length (rws t) = 2" by simp_all
  with te h1 h2 h3 a b c d e show ?thesis by blast
qed

subsection \<open>Only NextSong events go downstream\<close>

text \<open>
  C5. The frame that lines 100 to 106 hand on, from which the users, time and songplays
  tables are built, holds exactly the log rows whose page is \<open>NextSong\<close>. It is the
  same frame when every other row is removed from the log first, and so is the whole of
  \<open>process_log_data\<close>: the same outcome, the same tables written, the same effects. A
  row of any other page contributes nothing.
\<close>

theorem only_nextsong_rows_contribute:
  "(\<forall>d. nextsong_df df = Inr d \<longrightarrow>
        rws d = filter (\<lambda>r. cell (columns df) r ''page'' = VStr ''NextSong'') (rws df)) \<and>
   nextsong_df (df\<lparr>rws := filter (\<lambda>r. cell (columns df) r ''page'' = VStr ''NextSong'') (rws df)\<rparr>)
     = nextsong_df df \<and>
   (json_files w (input_data @ ''log_data/*.json'') = Inr df \<longrightarrow>
      process_log_data nm
        (w\<lparr>json_files := (json_files w)
           (input_data @ ''log_data/*.json'' :=
              Inr (df\<lparr>rws := filter (\<lambda>r. cell (columns df) r ''page'' = VStr ''NextSong'') (rws df)\<rparr>))\<rparr>)
        input_data output_data st
      = process_log_data nm w input_data output_data st)"
  using nextsong_df_rows[of df] nextsong_df_only_nextsong[of df]
    process_log_data_only_nextsong[of w input_data df nm output_data st]
  by blast

text \<open>The theorem at a log of one NextSong event and one Home page view.\<close>

theorem only_nextsong_rows_contribute_witness:
  "nextsong_df two_events = Inr nextsong_out \<and>
   json_files scenario (''s3a://udacity-dend/'' @ ''log_data/*.json'') = Inr two_events \<and>
   rws two_events = [event_play, event_home] \<and>
   cell (columns two_events) event_home ''page'' = VStr ''Home'' \<and>
   rws nextsong_out = [event_play] \<and>
   two_events\<lparr>rws := filter (\<lambda>r. cell (columns two_events) r ''page'' = VStr ''NextSong'') (rws two_events)\<rparr>
     = one_event \<and>
   nextsong_df one_event = nextsong_df two_events \<and>
   process_log_data all_bound
     (scenario\<lparr>json_files := (json_files scenario)(''s3a://udacity-dend/'' @ ''log_data/*.json'' := Inr one_event)\<rparr>)
     ''s3a://udacity-dend/'' ''s3a://gy-nano-bkt/'' initial
   = process_log_data all_bound scenario ''s3a://udacity-dend/'' ''s3a://gy-nano-bkt/'' initial"
proof -
  have h1: "nextsong_df two_events = Inr nextsong_out" by code_simp
  have h2: "json_files scenario (''s3a://udacity-dend/'' @ ''log_data/*.json'') = Inr two_events"
    by (simp add: scenario_def)
  have a: "rws two_events = [event_play, event_home]" by (simp add: two_events_def)
  have b: "cell (columns two_events) event_home ''page'' = VStr ''Home''" by code_simp
  have c: "rws nextsong_out = [event_play]" by (simp add: nextsong_out_def)
  have f: "two_events\<lparr>rws := filter (\<lambda>r. cell (columns two_events) r ''page'' = VStr ''NextSong'')
                                 (rws two_events)\<rparr> = one_event"
    by code_simp
  note T = only_nextsong_rows_contribute[of two_events scenario "''s3a://udacity-dend/''" all_bound
             "''s3a://gy-nano-bkt/''" initial]
  from T h2 have p: "process_log_data all_bound
     (scenario\<lparr>json_files := (json_files scenario)(''s3a://udacity-dend/'' @ ''log_data/*.json'' :=
        Inr (two_events\<lparr>rws := filter (\<lambda>r. cell (columns two_events) r ''page'' = VStr ''NextSong'')
                                 (rws two_events)\<rparr>))\<rparr>)
     ''s3a://udacity-dend/'' ''s3a://gy-nano-bkt/'' initial
   = process_log_data all_bound scenario ''s3a://udacity-dend/'' ''s3a://gy-nano-bkt/'' initial"
    by blast
  from T have q: "nextsong_df (two_events\<lparr>rws := filter (\<lambda>r. cell (columns two_events) r ''page'' = VStr ''NextSong'')
                                 (rws two_events)\<rparr>) = nextsong_df two_events"
    by blast
  from p q h1 h2 a b c show ?thesis unfolding f by blast
qed

subsection \<open>The dimension tables hold no row twice\<close>



subsection \<open>The time table\<close>

text \<open>
  C7. Line 127 calls \<open>TimestampType\<close>, a name the module does not bind, outside any
  \<open>try\<close>. Every run of the module as the file has it therefore ends in an exception,
  and none writes the time table: on the scenario the run ends in \<open>NameError: name
  'TimestampType' is not defined\<close> after the users table, with no \<open>start_time\<close> derived.
\<close>

theorem time_table_never_built:
  "isl (fst (etl etl_names w)) \<and>
   ''s3a://gy-nano-bkt//time'' \<notin> fst ` set (written (snd (etl etl_names w))) \<and>
   fst (etl etl_names scenario) = Inl (NameError ''TimestampType'') \<and>
   exit_status (fst (etl etl_names scenario)) = 1"
proof (intro conjI)
  show "isl (fst (etl etl_names w))" by (rule etl_as_is_raises)
  have "writes_only {''s3a://gy-nano-bkt//songs'', ''s3a://gy-nano-bkt//artists'', ''/users''}
     (then_run (try_except etl_names ''Error reading config file: '' (lift (read_config w))) (\<lambda>config.
     then_run (try_except etl_names ''Error setting AWS credential Environment Variables: ''
                 (set_credentials config)) (\<lambda>u.
     main etl_names w)))"
    by (intro writes_only_intros writes_only_set_credentials writes_only_main_as_is)
  from writes_onlyD[OF this, of initial]
  show "''s3a://gy-nano-bkt//time'' \<notin> fst ` set (written (snd (etl etl_names w)))"
    by (auto simp: etl_def initial_def)
  show "fst (etl etl_names scenario) = Inl (NameError ''TimestampType'')" by code_simp
  then show "exit_status (fst (etl etl_names scenario)) = 1" by simp
qed

subsection \<open>The identifiers of the fact rows\<close>

text \<open>
  C8, as amended. For frames of the schemas of line 172, when the engine forms fewer than
  \<open>2 ^ 30\<close> partitions of at most \<open>2 ^ 33\<close> rows each, every fact row gets a
  \<open>songplay_id\<close>, and the identifiers, read in the order of the rows, are strictly
  increasing (hence pairwise different), not negative and below \<open>2 ^ 63\<close>.
\<close>

theorem songplay_ids_increasing:
  assumes schema: "fact_schema df song_df" and wf: "well_formed df" "well_formed song_df"
    and limits: "length (partition_sizes w) < 2 ^ 30" "list_all (\<lambda>s. s \<le> 2 ^ 33) (partition_sizes w)"
      "length (rws (join_on df ''artist'' song_df ''artist_name'')) - sum_list (partition_sizes w) \<le> 2 ^ 33"
  shows "\<exists>t ids. songplays_table w df song_df = Inr t \<and>
           songplay_ids t = map VInt ids \<and> length ids = length (rws t) \<and>
           sorted_wrt (<) ids \<and> distinct ids \<and> list_all (\<lambda>i. 0 \<le> i \<and> i < 2 ^ 63) ids"
proof -
  from songplays_table_built[OF schema] obtain t where ok: "songplays_table w df song_df = Inr t" ..
  let ?ids = "monotonically_increasing_id (partition_sizes w) (length (rws t))"
  from songplay_id_values[OF ok wf]
  have v: "songplay_ids t = map VInt ?ids"
    and n: "length (rws t) = length (rws (join_on df ''artist'' song_df ''artist_name''))"
    by (simp_all add: songplay_ids_def)
  have len: "length ?ids = length (rws t)"
    by (simp add: monotonically_increasing_id_def length_partition_ids)
  from limits(3) n have "length (rws t) - sum_list (partition_sizes w) \<le> 2 ^ 33" by simp
  from monotonically_increasing_id_increasing[OF limits(1,2) this]
  have "sorted_wrt (<) ?ids \<and> distinct ?ids \<and> list_all (\<lambda>i. 0 \<le> i \<and> i < 2 ^ 63) ?ids"
    by (simp add: list_all_iff)
  with ok v len show ?thesis by blast
qed

text \<open>
  The theorem at two fact rows in two partitions: the identifiers are 0 and \<open>2 ^
  33\<close>.
\<close>

theorem songplay_ids_increasing_witness:
  "fact_schema played_mixed two_songs \<and> well_formed played_mixed \<and> well_formed two_songs \<and>
   length (partition_sizes split_in_two) < 2 ^ 30 \<and>
   list_all (\<lambda>s. s \<le> 2 ^ 33) (partition_sizes split_in_two) \<and>
   length (rws (join_on played_mixed ''artist'' two_songs ''artist_name''))
     - sum_list (partition_sizes split_in_two) \<le> 2 ^ 33 \<and>
   songplays_table split_in_two played_mixed two_songs = Inr facts_out \<and>
   songplay_ids facts_out = map VInt [0, 8589934592] \<and>
   sorted_wrt (<) [0, 8589934592 :: int] \<and> distinct [0, 8589934592 :: int]"
proof -
  have h1: "fact_schema played_mixed two_songs" by code_simp
  have h2: "well_formed played_mixed" by code_simp
  have h3: "well_formed two_songs" by code_simp
  have h4: "length (partition_sizes split_in_two) < 2 ^ 30"
    by (simp add: split_in_two_def)
  have h5: "list_all (\<lambda>s. s \<le> 2 ^ 33) (partition_sizes split_in_two)"
    by (simp add: split_in_two_def)
  have j: "length (rws (join_on played_mixed ''artist'' two_songs ''artist_name'')) = 2"
    by code_simp
  have h6: "length (rws (join_on played_mixed ''artist'' two_songs ''artist_name''))
              - sum_list (partition_sizes split_in_two) \<le> 2 ^ 33"
    unfolding j by (simp add: split_in_two_def)
  have e: "songplays_table split_in_two played_mixed two_songs = Inr facts_out" by code_simp
  have v: "songplay_ids facts_out = map VInt [0, 8589934592]" by code_simp
  from songplay_ids_increasing[OF h1 h2 h3 h4 h5 h6] obtain t ids where
    t: "songplays_table split_in_two played_mixed two_songs = Inr t"
    and i: "songplay_ids t = map VInt ids" and s: "sorted_wrt (<) ids" and d: "distinct ids"
    by blast
  from t e have "t = facts_out" by simp
  with i v have "map VInt ids = map VInt [0, 8589934592]" by simp
  moreover have "inj VInt" by (simp add: inj_def)
  ultimately have "ids = [0, 8589934592]" by (simp only: inj_map_eq_map)
  with s d h1 h2 h3 h4 h5 h6 e v show ?thesis by blast
qed

text \<open>
  The claim as stated fails beyond these limits: row \<open>2 ^ 33\<close> of the first partition
  and row 0 of the second get the same identifier.
\<close>

theorem songplay_ids_collide_counterexample:
  "\<not> isl (songplays_table crowded crowded_log one_song) \<and>
   well_formed crowded_log \<and> well_formed one_song \<and>
   length (rws (projr (songplays_table crowded crowded_log one_song))) = Suc crowd \<and>
   \<not> distinct (songplay_ids (projr (songplays_table crowded crowded_log one_song)))"
proof -
  have schema: "fact_schema crowded_log one_song"
    by (simp add: fact_schema_def crowded_log_def one_song_def played_columns_def song_columns_def)
  have wf1: "well_formed crowded_log"
    by (simp add: well_formed_def list_all_iff crowded_log_def played_columns_def played_row_def)
  have wf2: "well_formed one_song" by code_simp
  from songplays_table_built[OF schema] obtain t where
    ok: "songplays_table crowded crowded_log one_song = Inr t" ..
  have m: "matching crowded_log ''artist'' one_song ''artist_name'' played_row = [song_S1]"
    by (simp add: matching_def crowded_log_def one_song_def played_columns_def song_columns_def
          played_row_def song_S1_def cell_def sql_eq_def)
  have j: "length (rws (join_on crowded_log ''artist'' one_song ''artist_name'')) = Suc crowd"
    by (simp add: join_on_def m length_concat comp_def sum_list_replicate
          crowded_log_def[THEN arg_cong, of rws] del: replicate.simps)
  from songplay_id_values[OF ok wf1 wf2] j
  have v: "songplay_ids t = map VInt (monotonically_increasing_id [crowd] (Suc crowd))"
    and n: "length (rws t) = Suc crowd"
    by (simp_all add: songplay_ids_def crowded_def)
  have "\<not> distinct (songplay_ids t)"
    unfolding v using crowded_ids_collide by (simp add: distinct_map)
  with ok wf1 wf2 n show ?thesis by simp
qed

subsection \<open>A failure in process\_song\_data\<close>




subsection \<open>What the configuration file decides\<close>




end
